theory Spec2Isabelle
  imports Complex_Main "HOL-Library.Option_ord"
begin

section \<open>Real-estate CRM: data model\<close>

text \<open>
  A shallow embedding of \<^verbatim>\<open>app.py\<close>. Every SQLAlchemy model class is a record, every
  table is the list of its rows in insertion order, and the database is the record of the
  eight tables. Column conventions:
  \<^item> \<^verbatim>\<open>db.Integer\<close> is \<open>int\<close>, \<^verbatim>\<open>db.String\<close>/\<^verbatim>\<open>db.Text\<close> is \<open>string\<close>,
    \<^verbatim>\<open>db.Boolean\<close> is \<open>bool\<close>;
  \<^item> \<^verbatim>\<open>db.Float\<close> is \<open>real\<close>: a stored amount is the number it denotes; what the
    summation of a list of amounts returns is left to \<open>float_sum\<close> below;
  \<^item> \<^verbatim>\<open>db.DateTime\<close> is an instant on an integer time line, \<^verbatim>\<open>db.Date\<close> is a record of
    year, month and day compared lexicographically;
  \<^item> a nullable column that some handler can leave NULL is an \<open>option\<close>; a column declared
    \<^verbatim>\<open>nullable=False\<close> and a column whose default or whose every writer supplies a value
    (\<^verbatim>\<open>created_at\<close>, \<^verbatim>\<open>Deal.commission_rate\<close>, \<^verbatim>\<open>User.role\<close>, \<^verbatim>\<open>User.is_active\<close>, ...)
    has the plain type.
\<close>

type_synonym timestamp = int

record date =
  year :: int
  month :: nat
  day :: nat

definition date_lt :: "date \<Rightarrow> date \<Rightarrow> bool" where
  "date_lt a b \<longleftrightarrow>
     year a < year b \<or>
     (year a = year b \<and> (month a < month b \<or> (month a = month b \<and> day a < day b)))"

definition date_le :: "date \<Rightarrow> date \<Rightarrow> bool" where
  "date_le a b \<longleftrightarrow> date_lt a b \<or> a = b"

text \<open>The invariant of Python's \<^verbatim>\<open>datetime.date\<close> that the month arithmetic relies on.\<close>

definition valid_date :: "date \<Rightarrow> bool" where
  "valid_date d \<longleftrightarrow> 1 \<le> month d \<and> month d \<le> 12 \<and> 1 \<le> day d \<and> day d \<le> 31"

record user =
  u_id :: int
  u_username :: string
  u_email :: string
  u_password_hash :: string
  u_role :: string
  u_first_name :: "string option"
  u_last_name :: "string option"
  u_phone :: "string option"
  u_position :: "string option"
  u_hire_date :: "date option"
  u_commission_rate :: real
  u_is_active :: bool
  u_avatar_color :: string
  u_created_at :: timestamp
  u_created_by :: "int option"

record client =
  c_id :: int
  c_first_name :: string
  c_last_name :: string
  c_email :: "string option"
  c_phone :: "string option"
  c_client_type :: "string option"
  c_status :: "string option"
  c_budget_min :: "real option"
  c_budget_max :: "real option"
  c_preferred_location :: "string option"
  c_notes :: "string option"
  c_source :: "string option"
  c_created_at :: timestamp
  c_updated_at :: timestamp
  c_agent_id :: "int option"

record property =
  p_id :: int
  p_title :: string
  p_property_type :: "string option"
  p_status :: "string option"
  p_listing_type :: "string option"
  p_price :: real
  p_address :: string
  p_city :: "string option"
  p_state :: "string option"
  p_zip_code :: "string option"
  p_bedrooms :: "int option"
  p_bathrooms :: "real option"
  p_sqft :: "int option"
  p_lot_size :: "real option"
  p_year_built :: "int option"
  p_description :: "string option"
  p_features :: "string option"
  p_image_url :: "string option"
  p_created_at :: timestamp
  p_updated_at :: timestamp
  p_agent_id :: "int option"

record deal =
  d_id :: int
  d_client_id :: int
  d_property_id :: int
  d_status :: "string option"
  d_offer_price :: "real option"
  d_final_price :: "real option"
  d_commission_rate :: real
  d_closing_date :: "date option"
  d_notes :: "string option"
  d_created_at :: timestamp
  d_updated_at :: timestamp

record interaction =
  i_id :: int
  i_client_id :: int
  i_interaction_type :: "string option"
  i_subject :: "string option"
  i_notes :: "string option"
  i_created_at :: timestamp

record task =
  t_id :: int
  t_title :: string
  t_description :: "string option"
  t_priority :: "string option"
  t_status :: "string option"
  t_due_date :: "timestamp option"
  t_completed_at :: "timestamp option"
  t_user_id :: "int option"
  t_created_at :: timestamp

record showing =
  sh_id :: int
  sh_property_id :: int
  sh_client_name :: "string option"
  sh_client_phone :: "string option"
  sh_client_email :: "string option"
  sh_scheduled_date :: timestamp
  sh_status :: "string option"
  sh_feedback :: "string option"
  sh_created_at :: timestamp

record activity =
  a_id :: int
  a_user_id :: int
  a_action :: string
  a_entity_type :: "string option"
  a_entity_id :: "int option"
  a_entity_name :: "string option"
  a_details :: "string option"
  a_ip_address :: "string option"
  a_created_at :: timestamp

record db =
  tbl_user :: "user list"
  tbl_client :: "client list"
  tbl_property :: "property list"
  tbl_deal :: "deal list"
  tbl_interaction :: "interaction list"
  tbl_task :: "task list"
  tbl_showing :: "showing list"
  tbl_activity :: "activity list"

section \<open>Derived attributes of the models\<close>

text \<open>
  Python's \<^verbatim>\<open>a or b\<close> on a nullable Float: \<^verbatim>\<open>a\<close> when it is truthy (present and not
  zero), otherwise \<^verbatim>\<open>b\<close>.
\<close>

definition py_or :: "real option \<Rightarrow> real \<Rightarrow> real" where
  "py_or a b = (case a of None \<Rightarrow> b | Some x \<Rightarrow> if x \<noteq> 0 then x else b)"

text \<open>\<^verbatim>\<open>deal.final_price or deal.offer_price or 0\<close> (lines 134, 791 and 970).\<close>

definition deal_price :: "deal \<Rightarrow> real" where
  "deal_price d = py_or (d_final_price d) (py_or (d_offer_price d) 0)"

text \<open>
  \<^verbatim>\<open>Deal.commission_amount\<close>:
  \<^verbatim>\<open>price = self.final_price or self.offer_price or 0\<close>,
  \<^verbatim>\<open>return price * (self.commission_rate / 100) if price else 0\<close>.
\<close>

definition commission_amount :: "deal \<Rightarrow> real" where
  "commission_amount d =
     (let price = deal_price d
      in if price \<noteq> 0 then price * (d_commission_rate d / 100) else 0)"

text \<open>
  The specification's reading, \<open>(finalPrice ?? offerPrice ?? 0) * commissionRate / 100\<close>, where
  \<open>??\<close> falls through on an absent value only.
\<close>

definition spec_price :: "deal \<Rightarrow> real" where
  "spec_price d =
     (case d_final_price d of
        Some p \<Rightarrow> p
      | None \<Rightarrow> (case d_offer_price d of Some p \<Rightarrow> p | None \<Rightarrow> 0))"

definition spec_commission_amount :: "deal \<Rightarrow> real" where
  "spec_commission_amount d = spec_price d * d_commission_rate d / 100"

text \<open>The price as the code selects it: a zero price counts as absent.\<close>

definition nonzero_price :: "deal \<Rightarrow> real" where
  "nonzero_price d =
     (if d_final_price d \<noteq> None \<and> d_final_price d \<noteq> Some 0 then the (d_final_price d)
      else if d_offer_price d \<noteq> None \<and> d_offer_price d \<noteq> Some 0 then the (d_offer_price d)
      else 0)"

section \<open>Request context, responses and the store\<close>

text \<open>
  The ambient state of a request: the user id that flask_login keeps in the session, the
  peer address, and the clock (\<^verbatim>\<open>datetime.utcnow()\<close> with its calendar date).
\<close>

record ctx =
  session_user :: "int option"
  remote_addr :: "string option"
  utcnow :: timestamp
  today :: date

text \<open>
  Library functions the handlers call and the model does not look into: werkzeug's password
  hashing, the \<^verbatim>\<open>{:,.0f}\<close> number format, the index that \<^verbatim>\<open>random.choice\<close> draws, and
  Python's \<^verbatim>\<open>sum\<close> over doubles. \<open>float_sum\<close> is the number that \<^verbatim>\<open>sum\<close> returns for a list of
  amounts: the additions round, so it need not be the exact sum and it depends on how the
  amounts are grouped.
\<close>

record env =
  check_password_hash :: "string \<Rightarrow> string \<Rightarrow> bool"
  generate_password_hash :: "string \<Rightarrow> string"
  format_price :: "real \<Rightarrow> string"
  random_index :: nat
  float_sum :: "real list \<Rightarrow> real"

datatype http_method = GET | POST

text \<open>
  How a handler ends, named after the specification's error kinds:
  \<^item> \<open>OK\<close>: the handler ran to its last \<^verbatim>\<open>return\<close> (a success flash and a redirect, or the
    page of a view);
  \<^item> \<open>Page\<close>: a form or the login page is rendered and nothing is written;
  \<^item> \<open>LoginRequired\<close>: \<^verbatim>\<open>@login_required\<close> redirects a request that is not authenticated;
  \<^item> \<open>NotFound\<close>: \<^verbatim>\<open>get_or_404\<close> aborts;
  \<^item> \<open>Forbidden\<close>: \<^verbatim>\<open>flash('Access denied', 'error')\<close> with its redirect, the JSON reply
    with status 403, or the redirect of \<^verbatim>\<open>admin_required\<close>;
  \<^item> \<open>ConflictError\<close>: the two refusals of \<^verbatim>\<open>delete_staff\<close>;
  \<^item> \<open>ValidationError\<close>: a duplicate username or email, a password that is too short;
  \<^item> \<open>AuthFailure\<close>: \<^verbatim>\<open>flash('Invalid username or password', 'error')\<close>;
  \<^item> \<open>ServerError\<close>: an exception nobody catches (an IntegrityError of the store, an
    attribute read on \<^verbatim>\<open>None\<close>).
  Every handler returns its response together with the database it leaves behind.
\<close>

datatype response =
  OK | Page | LoginRequired | NotFound | Forbidden | ConflictError | ValidationError
  | AuthFailure | ServerError

text \<open>\<^verbatim>\<open>Model.query.get(id)\<close>: the row with that primary key.\<close>

definition get_user :: "db \<Rightarrow> int \<Rightarrow> user option" where
  "get_user s i = find (\<lambda>u. u_id u = i) (tbl_user s)"

definition get_client :: "db \<Rightarrow> int \<Rightarrow> client option" where
  "get_client s i = find (\<lambda>c. c_id c = i) (tbl_client s)"

definition get_property :: "db \<Rightarrow> int \<Rightarrow> property option" where
  "get_property s i = find (\<lambda>p. p_id p = i) (tbl_property s)"

definition get_deal :: "db \<Rightarrow> int \<Rightarrow> deal option" where
  "get_deal s i = find (\<lambda>d. d_id d = i) (tbl_deal s)"

definition get_task :: "db \<Rightarrow> int \<Rightarrow> task option" where
  "get_task s i = find (\<lambda>t. t_id t = i) (tbl_task s)"

text \<open>
  The primary key SQLite gives a new row of an \<^verbatim>\<open>INTEGER PRIMARY KEY\<close> table: one more
  than the largest key in the table, 1 in an empty table.
\<close>

definition next_id :: "int list \<Rightarrow> int" where
  "next_id ids = fold max ids 0 + 1"

text \<open>\<^verbatim>\<open>load_user\<close>: flask_login's \<^verbatim>\<open>current_user\<close>, \<open>None\<close> for an anonymous request.\<close>

definition current_user :: "ctx \<Rightarrow> db \<Rightarrow> user option" where
  "current_user cx s = (case session_user cx of None \<Rightarrow> None | Some i \<Rightarrow> get_user s i)"

text \<open>
  \<^verbatim>\<open>current_user.is_authenticated\<close>. \<^verbatim>\<open>UserMixin.is_authenticated\<close> returns
  \<^verbatim>\<open>self.is_active\<close>, and on \<^verbatim>\<open>User\<close> that attribute is the \<^verbatim>\<open>is_active\<close> column: the
  session of a deactivated account is not authenticated. The anonymous user never is.
\<close>

definition is_authenticated :: "user option \<Rightarrow> bool" where
  "is_authenticated cu = (case cu of None \<Rightarrow> False | Some u \<Rightarrow> u_is_active u)"

definition is_admin :: "user \<Rightarrow> bool" where
  "is_admin u \<longleftrightarrow> u_role u = ''admin''"

definition is_manager :: "user \<Rightarrow> bool" where
  "is_manager u \<longleftrightarrow> u_role u \<in> set [''admin'', ''manager'']"

text \<open>\<^verbatim>\<open>User.full_name\<close>: both names when both are truthy, the username otherwise.\<close>

definition user_full_name :: "user \<Rightarrow> string" where
  "user_full_name u =
     (case (u_first_name u, u_last_name u) of
        (Some f, Some l) \<Rightarrow> if f \<noteq> [] \<and> l \<noteq> [] then f @ '' '' @ l else u_username u
      | _ \<Rightarrow> u_username u)"

definition client_full_name :: "client \<Rightarrow> string" where
  "client_full_name c = c_first_name c @ '' '' @ c_last_name c"

text \<open>What an f-string prints for a nullable text value.\<close>

definition py_str :: "string option \<Rightarrow> string" where
  "py_str x = (case x of None \<Rightarrow> ''None'' | Some v \<Rightarrow> v)"

text \<open>
  \<^verbatim>\<open>log_activity\<close>: one Activity row for the current user, none when the request is not
  authenticated.
\<close>

definition log_activity ::
  "ctx \<Rightarrow> string \<Rightarrow> string option \<Rightarrow> int option \<Rightarrow> string option \<Rightarrow> string option \<Rightarrow> db \<Rightarrow> db"
where
  "log_activity cx action entity_type entity_id entity_name details s =
     (case current_user cx s of
        None \<Rightarrow> s
      | Some u \<Rightarrow>
          if is_authenticated (Some u) then
            s\<lparr>tbl_activity := tbl_activity s @
              [\<lparr>a_id = next_id (map a_id (tbl_activity s)), a_user_id = u_id u,
                a_action = action, a_entity_type = entity_type, a_entity_id = entity_id,
                a_entity_name = entity_name, a_details = details,
                a_ip_address = remote_addr cx, a_created_at = utcnow cx\<rparr>]\<rparr>
          else s)"

text \<open>
  The decorators. \<^verbatim>\<open>@login_required\<close> answers a request that is not authenticated itself
  (\<open>anon\<close> is that answer); \<^verbatim>\<open>admin_required\<close> answers everybody who is not authenticated
  or not an admin.
\<close>

definition login_required :: "ctx \<Rightarrow> db \<Rightarrow> 'a \<Rightarrow> (user \<Rightarrow> 'a) \<Rightarrow> 'a" where
  "login_required cx s anon f =
     (case current_user cx s of
        None \<Rightarrow> anon
      | Some u \<Rightarrow> if \<not> is_authenticated (Some u) then anon else f u)"

definition admin_required :: "user \<Rightarrow> 'a \<Rightarrow> 'a \<Rightarrow> 'a" where
  "admin_required u denied f =
     (if \<not> is_authenticated (Some u) \<or> \<not> is_admin u then denied else f)"

subsection \<open>Case-insensitive search\<close>

text \<open>
  \<^verbatim>\<open>column.ilike(f'%{search}%')\<close> compiles to \<^verbatim>\<open>lower(column) LIKE lower(pattern)\<close> on SQLite:
  in the pattern \<^verbatim>\<open>%\<close> matches any run of characters and \<^verbatim>\<open>_\<close> any one character, also
  where they come from the search string; a NULL column matches nothing.
\<close>

definition ascii_lower :: "char \<Rightarrow> char" where
  "ascii_lower c =
     (let n = (of_char c :: nat) in if 65 \<le> n \<and> n \<le> 90 then char_of (n + 32) else c)"

fun like :: "string \<Rightarrow> string \<Rightarrow> bool" where
  "like [] s = (s = [])"
| "like (p # ps) s =
     (if p = CHR ''%''
      then like ps s \<or> (case s of [] \<Rightarrow> False | _ # t \<Rightarrow> like (p # ps) t)
      else (case s of [] \<Rightarrow> False | c # t \<Rightarrow> (p = CHR ''_'' \<or> p = c) \<and> like ps t))"

definition ilike :: "string option \<Rightarrow> string \<Rightarrow> bool" where
  "ilike col search =
     (case col of
        None \<Rightarrow> False
      | Some v \<Rightarrow> like (map ascii_lower (''%'' @ search @ ''%'')) (map ascii_lower v))"

section \<open>Client routes\<close>

text \<open>
  The fields of the client form after the handler's coercions: \<^verbatim>\<open>request.form.get(k)\<close> is
  \<open>None\<close> for a missing key, \<^verbatim>\<open>float(request.form.get(k) or 0)\<close> is a number. A request
  whose numbers or dates do not parse raises before the first write and is not modelled.
\<close>

record client_form =
  cf_first_name :: "string option"
  cf_last_name :: "string option"
  cf_email :: "string option"
  cf_phone :: "string option"
  cf_client_type :: "string option"
  cf_status :: "string option"
  cf_budget_min :: real
  cf_budget_max :: real
  cf_preferred_location :: "string option"
  cf_source :: "string option"
  cf_notes :: "string option"

record interaction_form =
  if_interaction_type :: "string option"
  if_subject :: "string option"
  if_notes :: "string option"

text \<open>
  \<^verbatim>\<open>clients()\<close>: the rows of the current user, narrowed by the filters that are not empty,
  newest first. \<^verbatim>\<open>ORDER BY\<close> leaves the order of equal keys to the store; the model keeps
  them in table order.
\<close>

definition clients :: "ctx \<Rightarrow> string \<Rightarrow> string \<Rightarrow> string \<Rightarrow> db \<Rightarrow> response \<times> client list" where
  "clients cx status_filter type_filter search s =
     login_required cx s (LoginRequired, []) (\<lambda>u.
       let query = filter (\<lambda>c. c_agent_id c = Some (u_id u)) (tbl_client s);
           query = (if status_filter \<noteq> [] then filter (\<lambda>c. c_status c = Some status_filter) query
                    else query);
           query = (if type_filter \<noteq> [] then filter (\<lambda>c. c_client_type c = Some type_filter) query
                    else query);
           query = (if search \<noteq> []
                    then filter (\<lambda>c. ilike (Some (c_first_name c)) search \<or>
                                       ilike (Some (c_last_name c)) search \<or>
                                       ilike (c_email c) search \<or> ilike (c_phone c) search) query
                    else query)
       in (OK, sort_key (\<lambda>c. - c_created_at c) query))"

text \<open>
  \<^verbatim>\<open>add_client\<close>. The columns \<^verbatim>\<open>first_name\<close> and \<^verbatim>\<open>last_name\<close> are \<^verbatim>\<open>nullable=False\<close>: the
  commit of a row without them raises an IntegrityError and nothing is stored.
\<close>

definition add_client :: "ctx \<Rightarrow> http_method \<Rightarrow> client_form \<Rightarrow> db \<Rightarrow> response \<times> db" where
  "add_client cx method f s =
     login_required cx s (LoginRequired, s) (\<lambda>u.
       if method = POST then
         (case (cf_first_name f, cf_last_name f) of
            (Some fname, Some lname) \<Rightarrow>
              let client =
                    \<lparr>c_id = next_id (map c_id (tbl_client s)),
                     c_first_name = fname, c_last_name = lname,
                     c_email = cf_email f, c_phone = cf_phone f,
                     c_client_type = cf_client_type f,
                     c_status = (case cf_status f of None \<Rightarrow> Some ''lead'' | Some v \<Rightarrow> Some v),
                     c_budget_min = Some (cf_budget_min f),
                     c_budget_max = Some (cf_budget_max f),
                     c_preferred_location = cf_preferred_location f,
                     c_notes = cf_notes f, c_source = cf_source f,
                     c_created_at = utcnow cx, c_updated_at = utcnow cx,
                     c_agent_id = Some (u_id u)\<rparr>;
                  s1 = s\<lparr>tbl_client := tbl_client s @ [client]\<rparr>
              in (OK, log_activity cx ''created'' (Some ''client'') (Some (c_id client))
                        (Some (client_full_name client))
                        (Some (''Added new client: '' @ client_full_name client)) s1)
          | _ \<Rightarrow> (ServerError, s))
       else (Page, s))"

text \<open>
  \<^verbatim>\<open>view_client\<close>: the client with its interactions (newest first) and its deals. The only
  access check is \<^verbatim>\<open>client.agent_id != current_user.id\<close>.
\<close>

definition view_client ::
  "ctx \<Rightarrow> int \<Rightarrow> db \<Rightarrow> response \<times> (client \<times> interaction list \<times> deal list) option"
where
  "view_client cx ident s =
     login_required cx s (LoginRequired, None) (\<lambda>u.
       case get_client s ident of
         None \<Rightarrow> (NotFound, None)
       | Some client \<Rightarrow>
           if c_agent_id client \<noteq> Some (u_id u) then (Forbidden, None)
           else (OK, Some (client,
                   sort_key (\<lambda>i. - i_created_at i)
                     (filter (\<lambda>i. i_client_id i = ident) (tbl_interaction s)),
                   filter (\<lambda>d. d_client_id d = ident) (tbl_deal s))))"

text \<open>
  \<^verbatim>\<open>edit_client\<close>. An UPDATE is sent, and \<^verbatim>\<open>updated_at\<close> is set by its \<^verbatim>\<open>onupdate\<close>, only
  when some column changes.
\<close>

definition edit_client :: "ctx \<Rightarrow> http_method \<Rightarrow> int \<Rightarrow> client_form \<Rightarrow> db \<Rightarrow> response \<times> db" where
  "edit_client cx method ident f s =
     login_required cx s (LoginRequired, s) (\<lambda>u.
       case get_client s ident of
         None \<Rightarrow> (NotFound, s)
       | Some client \<Rightarrow>
           if c_agent_id client \<noteq> Some (u_id u) then (Forbidden, s)
           else if method = POST then
             (case (cf_first_name f, cf_last_name f) of
                (Some fname, Some lname) \<Rightarrow>
                  let c1 = client\<lparr>c_first_name := fname, c_last_name := lname,
                             c_email := cf_email f, c_phone := cf_phone f,
                             c_client_type := cf_client_type f, c_status := cf_status f,
                             c_budget_min := Some (cf_budget_min f),
                             c_budget_max := Some (cf_budget_max f),
                             c_preferred_location := cf_preferred_location f,
                             c_source := cf_source f, c_notes := cf_notes f\<rparr>;
                      c2 = (if c1 = client then client else c1\<lparr>c_updated_at := utcnow cx\<rparr>);
                      s1 = s\<lparr>tbl_client :=
                             map (\<lambda>c. if c_id c = ident then c2 else c) (tbl_client s)\<rparr>
                  in (OK, log_activity cx ''updated'' (Some ''client'') (Some (c_id c2))
                            (Some (client_full_name c2))
                            (Some (''Updated client: '' @ client_full_name c2)) s1)
              | _ \<Rightarrow> (ServerError, s))
           else (Page, s))"

text \<open>
  \<^verbatim>\<open>delete_client\<close>. \<^verbatim>\<open>Client.interactions\<close> has \<^verbatim>\<open>cascade='all, delete-orphan'\<close>: the
  interactions go with the client. \<^verbatim>\<open>Client.deals\<close> has no delete cascade, so the
  unit of work blanks \<^verbatim>\<open>client_id\<close> of every deal of the client; that column is
  \<^verbatim>\<open>nullable=False\<close>, so with such a deal the commit raises an IntegrityError and nothing
  is deleted.
\<close>

definition delete_client :: "ctx \<Rightarrow> int \<Rightarrow> db \<Rightarrow> response \<times> db" where
  "delete_client cx ident s =
     login_required cx s (LoginRequired, s) (\<lambda>u.
       case get_client s ident of
         None \<Rightarrow> (NotFound, s)
       | Some client \<Rightarrow>
           if c_agent_id client \<noteq> Some (u_id u) then (Forbidden, s)
           else if list_ex (\<lambda>d. d_client_id d = ident) (tbl_deal s) then (ServerError, s)
           else
             let client_name = client_full_name client;
                 s1 = s\<lparr>tbl_client := filter (\<lambda>c. c_id c \<noteq> ident) (tbl_client s),
                        tbl_interaction :=
                          filter (\<lambda>i. i_client_id i \<noteq> ident) (tbl_interaction s)\<rparr>
             in (OK, log_activity cx ''deleted'' (Some ''client'') (Some ident)
                       (Some client_name) (Some (''Deleted client: '' @ client_name)) s1))"

text \<open>\<^verbatim>\<open>add_interaction\<close>: no call of \<^verbatim>\<open>log_activity\<close>.\<close>

definition add_interaction :: "ctx \<Rightarrow> int \<Rightarrow> interaction_form \<Rightarrow> db \<Rightarrow> response \<times> db" where
  "add_interaction cx ident f s =
     login_required cx s (LoginRequired, s) (\<lambda>u.
       case get_client s ident of
         None \<Rightarrow> (NotFound, s)
       | Some client \<Rightarrow>
           if c_agent_id client \<noteq> Some (u_id u) then (Forbidden, s)
           else
             (OK, s\<lparr>tbl_interaction := tbl_interaction s @
                    [\<lparr>i_id = next_id (map i_id (tbl_interaction s)), i_client_id = ident,
                      i_interaction_type = if_interaction_type f, i_subject = if_subject f,
                      i_notes = if_notes f, i_created_at = utcnow cx\<rparr>]\<rparr>))"

section \<open>Property routes\<close>

record property_form =
  pf_title :: "string option"
  pf_property_type :: "string option"
  pf_status :: "string option"
  pf_listing_type :: "string option"
  pf_price :: real
  pf_address :: "string option"
  pf_city :: "string option"
  pf_state :: "string option"
  pf_zip_code :: "string option"
  pf_bedrooms :: int
  pf_bathrooms :: real
  pf_sqft :: int
  pf_lot_size :: real
  pf_year_built :: int
  pf_description :: "string option"
  pf_features :: "string option"
  pf_image_url :: "string option"

record showing_form =
  shf_client_name :: "string option"
  shf_client_phone :: "string option"
  shf_client_email :: "string option"
  shf_scheduled_date :: timestamp

definition properties ::
  "ctx \<Rightarrow> string \<Rightarrow> string \<Rightarrow> string \<Rightarrow> string \<Rightarrow> db \<Rightarrow> response \<times> property list"
where
  "properties cx status_filter type_filter listing_filter search s =
     login_required cx s (LoginRequired, []) (\<lambda>u.
       let query = filter (\<lambda>p. p_agent_id p = Some (u_id u)) (tbl_property s);
           query = (if status_filter \<noteq> [] then filter (\<lambda>p. p_status p = Some status_filter) query
                    else query);
           query = (if type_filter \<noteq> []
                    then filter (\<lambda>p. p_property_type p = Some type_filter) query else query);
           query = (if listing_filter \<noteq> []
                    then filter (\<lambda>p. p_listing_type p = Some listing_filter) query else query);
           query = (if search \<noteq> []
                    then filter (\<lambda>p. ilike (Some (p_title p)) search \<or>
                                       ilike (Some (p_address p)) search \<or>
                                       ilike (p_city p) search) query
                    else query)
       in (OK, sort_key (\<lambda>p. - p_created_at p) query))"

text \<open>\<^verbatim>\<open>add_property\<close>; \<^verbatim>\<open>title\<close> and \<^verbatim>\<open>address\<close> are \<^verbatim>\<open>nullable=False\<close>.\<close>

definition add_property ::
  "env \<Rightarrow> ctx \<Rightarrow> http_method \<Rightarrow> property_form \<Rightarrow> db \<Rightarrow> response \<times> db"
where
  "add_property ev cx method f s =
     login_required cx s (LoginRequired, s) (\<lambda>u.
       if method = POST then
         (case (pf_title f, pf_address f) of
            (Some title, Some address) \<Rightarrow>
              let prop =
                    \<lparr>p_id = next_id (map p_id (tbl_property s)), p_title = title,
                     p_property_type = pf_property_type f,
                     p_status = (case pf_status f of None \<Rightarrow> Some ''available'' | Some v \<Rightarrow> Some v),
                     p_listing_type = pf_listing_type f, p_price = pf_price f,
                     p_address = address, p_city = pf_city f, p_state = pf_state f,
                     p_zip_code = pf_zip_code f, p_bedrooms = Some (pf_bedrooms f),
                     p_bathrooms = Some (pf_bathrooms f), p_sqft = Some (pf_sqft f),
                     p_lot_size = Some (pf_lot_size f), p_year_built = Some (pf_year_built f),
                     p_description = pf_description f, p_features = pf_features f,
                     p_image_url = pf_image_url f,
                     p_created_at = utcnow cx, p_updated_at = utcnow cx,
                     p_agent_id = Some (u_id u)\<rparr>;
                  s1 = s\<lparr>tbl_property := tbl_property s @ [prop]\<rparr>
              in (OK, log_activity cx ''created'' (Some ''property'') (Some (p_id prop))
                        (Some (p_title prop))
                        (Some (''Added property: '' @ p_title prop @ '' - $'' @
                               format_price ev (p_price prop))) s1)
          | _ \<Rightarrow> (ServerError, s))
       else (Page, s))"

definition view_property ::
  "ctx \<Rightarrow> int \<Rightarrow> db \<Rightarrow> response \<times> (property \<times> showing list \<times> deal list) option"
where
  "view_property cx ident s =
     login_required cx s (LoginRequired, None) (\<lambda>u.
       case get_property s ident of
         None \<Rightarrow> (NotFound, None)
       | Some prop \<Rightarrow>
           if p_agent_id prop \<noteq> Some (u_id u) then (Forbidden, None)
           else (OK, Some (prop,
                   sort_key (\<lambda>sh. - sh_scheduled_date sh)
                     (filter (\<lambda>sh. sh_property_id sh = ident) (tbl_showing s)),
                   filter (\<lambda>d. d_property_id d = ident) (tbl_deal s))))"

definition edit_property ::
  "ctx \<Rightarrow> http_method \<Rightarrow> int \<Rightarrow> property_form \<Rightarrow> db \<Rightarrow> response \<times> db"
where
  "edit_property cx method ident f s =
     login_required cx s (LoginRequired, s) (\<lambda>u.
       case get_property s ident of
         None \<Rightarrow> (NotFound, s)
       | Some prop \<Rightarrow>
           if p_agent_id prop \<noteq> Some (u_id u) then (Forbidden, s)
           else if method = POST then
             (case (pf_title f, pf_address f) of
                (Some title, Some address) \<Rightarrow>
                  let p1 = prop\<lparr>p_title := title, p_property_type := pf_property_type f,
                             p_status := pf_status f, p_listing_type := pf_listing_type f,
                             p_price := pf_price f, p_address := address, p_city := pf_city f,
                             p_state := pf_state f, p_zip_code := pf_zip_code f,
                             p_bedrooms := Some (pf_bedrooms f),
                             p_bathrooms := Some (pf_bathrooms f), p_sqft := Some (pf_sqft f),
                             p_lot_size := Some (pf_lot_size f),
                             p_year_built := Some (pf_year_built f),
                             p_description := pf_description f, p_features := pf_features f,
                             p_image_url := pf_image_url f\<rparr>;
                      p2 = (if p1 = prop then prop else p1\<lparr>p_updated_at := utcnow cx\<rparr>);
                      s1 = s\<lparr>tbl_property :=
                             map (\<lambda>p. if p_id p = ident then p2 else p) (tbl_property s)\<rparr>
                  in (OK, log_activity cx ''updated'' (Some ''property'') (Some (p_id p2))
                            (Some (p_title p2)) (Some (''Updated property: '' @ p_title p2)) s1)
              | _ \<Rightarrow> (ServerError, s))
           else (Page, s))"

text \<open>
  \<^verbatim>\<open>delete_property\<close>. \<^verbatim>\<open>Property.showings\<close> has \<^verbatim>\<open>cascade='all, delete-orphan'\<close>;
  \<^verbatim>\<open>Property.deals\<close> has none and \<^verbatim>\<open>Deal.property_id\<close> is \<^verbatim>\<open>nullable=False\<close>, so a property
  with a deal cannot be deleted (IntegrityError at the commit).
\<close>

definition delete_property :: "ctx \<Rightarrow> int \<Rightarrow> db \<Rightarrow> response \<times> db" where
  "delete_property cx ident s =
     login_required cx s (LoginRequired, s) (\<lambda>u.
       case get_property s ident of
         None \<Rightarrow> (NotFound, s)
       | Some prop \<Rightarrow>
           if p_agent_id prop \<noteq> Some (u_id u) then (Forbidden, s)
           else if list_ex (\<lambda>d. d_property_id d = ident) (tbl_deal s) then (ServerError, s)
           else
             let prop_title = p_title prop;
                 s1 = s\<lparr>tbl_property := filter (\<lambda>p. p_id p \<noteq> ident) (tbl_property s),
                        tbl_showing := filter (\<lambda>sh. sh_property_id sh \<noteq> ident) (tbl_showing s)\<rparr>
             in (OK, log_activity cx ''deleted'' (Some ''property'') (Some ident)
                       (Some prop_title) (Some (''Deleted property: '' @ prop_title)) s1))"

definition add_showing :: "ctx \<Rightarrow> int \<Rightarrow> showing_form \<Rightarrow> db \<Rightarrow> response \<times> db" where
  "add_showing cx ident f s =
     login_required cx s (LoginRequired, s) (\<lambda>u.
       case get_property s ident of
         None \<Rightarrow> (NotFound, s)
       | Some prop \<Rightarrow>
           if p_agent_id prop \<noteq> Some (u_id u) then (Forbidden, s)
           else
             let showing =
                   \<lparr>sh_id = next_id (map sh_id (tbl_showing s)), sh_property_id = ident,
                    sh_client_name = shf_client_name f, sh_client_phone = shf_client_phone f,
                    sh_client_email = shf_client_email f,
                    sh_scheduled_date = shf_scheduled_date f, sh_status = Some ''scheduled'',
                    sh_feedback = None, sh_created_at = utcnow cx\<rparr>;
                 s1 = s\<lparr>tbl_showing := tbl_showing s @ [showing]\<rparr>
             in (OK, log_activity cx ''scheduled'' (Some ''showing'') (Some (sh_id showing))
                       (Some (p_title prop))
                       (Some (''Scheduled showing for '' @ p_title prop @ '' with '' @
                              py_str (sh_client_name showing))) s1))"

section \<open>Deal routes\<close>

record deal_form =
  df_client_id :: int
  df_property_id :: int
  df_status :: "string option"
  df_offer_price :: real
  df_final_price :: "real option"
  df_commission_rate :: real
  df_closing_date :: "date option"
  df_notes :: "string option"

text \<open>\<^verbatim>\<open>Deal.query.join(Client).filter(Client.agent_id == uid)\<close>: the deals whose client
  exists and belongs to \<open>uid\<close>.\<close>

definition deal_of_agent :: "db \<Rightarrow> int \<Rightarrow> deal \<Rightarrow> bool" where
  "deal_of_agent s uid d =
     (case get_client s (d_client_id d) of
        None \<Rightarrow> False
      | Some c \<Rightarrow> c_agent_id c = Some uid)"

definition deals :: "ctx \<Rightarrow> string \<Rightarrow> db \<Rightarrow> response \<times> deal list" where
  "deals cx status_filter s =
     login_required cx s (LoginRequired, []) (\<lambda>u.
       let query = filter (deal_of_agent s (u_id u)) (tbl_deal s);
           query = (if status_filter \<noteq> [] then filter (\<lambda>d. d_status d = Some status_filter) query
                    else query)
       in (OK, sort_key (\<lambda>d. - d_created_at d) query))"

text \<open>
  \<^verbatim>\<open>add_deal\<close>. SQLite does not check the foreign keys, so the deal is committed whatever
  ids the form names; the arguments of \<^verbatim>\<open>log_activity\<close> then read \<^verbatim>\<open>deal.property.title\<close>
  and \<^verbatim>\<open>deal.client.full_name\<close>, which raises after the commit when either row is missing.
\<close>

definition add_deal :: "ctx \<Rightarrow> http_method \<Rightarrow> deal_form \<Rightarrow> db \<Rightarrow> response \<times> db" where
  "add_deal cx method f s =
     login_required cx s (LoginRequired, s) (\<lambda>u.
       if method = POST then
         let deal =
               \<lparr>d_id = next_id (map d_id (tbl_deal s)), d_client_id = df_client_id f,
                d_property_id = df_property_id f,
                d_status = (case df_status f of None \<Rightarrow> Some ''initiated'' | Some v \<Rightarrow> Some v),
                d_offer_price = Some (df_offer_price f), d_final_price = df_final_price f,
                d_commission_rate = df_commission_rate f,
                d_closing_date = df_closing_date f, d_notes = df_notes f,
                d_created_at = utcnow cx, d_updated_at = utcnow cx\<rparr>;
             s1 = s\<lparr>tbl_deal := tbl_deal s @ [deal]\<rparr>
         in (case (get_property s1 (d_property_id deal), get_client s1 (d_client_id deal)) of
               (Some prop, Some client) \<Rightarrow>
                 (OK, log_activity cx ''created'' (Some ''deal'') (Some (d_id deal))
                        (Some (p_title prop))
                        (Some (''Created deal for '' @ p_title prop @ '' with '' @
                               client_full_name client)) s1)
             | _ \<Rightarrow> (ServerError, s1))
       else (Page, s))"

text \<open>
  \<^verbatim>\<open>edit_deal\<close>. The access check reads \<^verbatim>\<open>deal.client.agent_id\<close> and raises when the
  client row is missing. The arrow in the status message is U+2192, three bytes in UTF-8.
\<close>

definition edit_deal :: "ctx \<Rightarrow> http_method \<Rightarrow> int \<Rightarrow> deal_form \<Rightarrow> db \<Rightarrow> response \<times> db" where
  "edit_deal cx method ident f s =
     login_required cx s (LoginRequired, s) (\<lambda>u.
       case get_deal s ident of
         None \<Rightarrow> (NotFound, s)
       | Some deal \<Rightarrow>
           (case get_client s (d_client_id deal) of
              None \<Rightarrow> (ServerError, s)
            | Some owner \<Rightarrow>
                if c_agent_id owner \<noteq> Some (u_id u) then (Forbidden, s)
                else if method = POST then
                  let old_status = d_status deal;
                      d1 = deal\<lparr>d_client_id := df_client_id f,
                             d_property_id := df_property_id f, d_status := df_status f,
                             d_offer_price := Some (df_offer_price f),
                             d_final_price := df_final_price f,
                             d_commission_rate := df_commission_rate f,
                             d_closing_date := df_closing_date f, d_notes := df_notes f\<rparr>;
                      d2 = (if d1 = deal then deal else d1\<lparr>d_updated_at := utcnow cx\<rparr>);
                      s1 = s\<lparr>tbl_deal := map (\<lambda>d. if d_id d = ident then d2 else d) (tbl_deal s)\<rparr>
                  in (case get_property s1 (d_property_id d2) of
                        None \<Rightarrow> (ServerError, s1)
                      | Some prop \<Rightarrow>
                          if old_status \<noteq> d_status d2
                          then (OK, log_activity cx ''status_change'' (Some ''deal'')
                                      (Some (d_id d2)) (Some (p_title prop))
                                      (Some (''Deal status changed: '' @ py_str old_status @
                                             [CHR '' '', CHR 0xE2, CHR 0x86, CHR 0x92, CHR '' ''] @
                                             py_str (d_status d2))) s1)
                          else (OK, log_activity cx ''updated'' (Some ''deal'') (Some (d_id d2))
                                      (Some (p_title prop))
                                      (Some (''Updated deal for '' @ p_title prop)) s1))
                else (Page, s)))"

section \<open>Task routes\<close>

record task_form =
  tf_title :: "string option"
  tf_description :: "string option"
  tf_priority :: "string option"
  tf_due_date :: "timestamp option"

text \<open>
  \<^verbatim>\<open>tasks()\<close>, ordered by \<^verbatim>\<open>Task.due_date\<close>. SQLite sorts NULL before every value in an
  ascending \<^verbatim>\<open>ORDER BY\<close>; so does the order on \<open>option\<close>, where \<open>None\<close> is least.
\<close>

definition tasks :: "ctx \<Rightarrow> string \<Rightarrow> string \<Rightarrow> db \<Rightarrow> response \<times> task list" where
  "tasks cx status_filter priority_filter s =
     login_required cx s (LoginRequired, []) (\<lambda>u.
       let query = filter (\<lambda>t. t_user_id t = Some (u_id u)) (tbl_task s);
           query = (if status_filter \<noteq> [] then filter (\<lambda>t. t_status t = Some status_filter) query
                    else query);
           query = (if priority_filter \<noteq> []
                    then filter (\<lambda>t. t_priority t = Some priority_filter) query else query)
       in (OK, sort_key t_due_date query))"

definition add_task :: "ctx \<Rightarrow> task_form \<Rightarrow> db \<Rightarrow> response \<times> db" where
  "add_task cx f s =
     login_required cx s (LoginRequired, s) (\<lambda>u.
       case tf_title f of
         None \<Rightarrow> (ServerError, s)
       | Some title \<Rightarrow>
           let task =
                 \<lparr>t_id = next_id (map t_id (tbl_task s)), t_title = title,
                  t_description = tf_description f,
                  t_priority = (case tf_priority f of None \<Rightarrow> Some ''medium'' | Some v \<Rightarrow> Some v),
                  t_status = Some ''pending'', t_due_date = tf_due_date f,
                  t_completed_at = None, t_user_id = Some (u_id u),
                  t_created_at = utcnow cx\<rparr>;
               s1 = s\<lparr>tbl_task := tbl_task s @ [task]\<rparr>
           in (OK, log_activity cx ''created'' (Some ''task'') (Some (t_id task))
                     (Some (t_title task)) (Some (''Created task: '' @ t_title task)) s1))"

text \<open>
  \<^verbatim>\<open>toggle_task\<close>. \<^verbatim>\<open>log_activity\<close> commits the session, the changed task with it.
\<close>

definition toggle_task :: "ctx \<Rightarrow> int \<Rightarrow> db \<Rightarrow> response \<times> db" where
  "toggle_task cx ident s =
     login_required cx s (LoginRequired, s) (\<lambda>u.
       case get_task s ident of
         None \<Rightarrow> (NotFound, s)
       | Some task \<Rightarrow>
           if t_user_id task \<noteq> Some (u_id u) then (Forbidden, s)
           else if t_status task = Some ''completed'' then
             let t1 = task\<lparr>t_status := Some ''pending'', t_completed_at := None\<rparr>;
                 s1 = s\<lparr>tbl_task := map (\<lambda>t. if t_id t = ident then t1 else t) (tbl_task s)\<rparr>
             in (OK, log_activity cx ''status_change'' (Some ''task'') (Some (t_id t1))
                       (Some (t_title t1)) (Some (''Reopened task: '' @ t_title t1)) s1)
           else
             let t1 = task\<lparr>t_status := Some ''completed'', t_completed_at := Some (utcnow cx)\<rparr>;
                 s1 = s\<lparr>tbl_task := map (\<lambda>t. if t_id t = ident then t1 else t) (tbl_task s)\<rparr>
             in (OK, log_activity cx ''status_change'' (Some ''task'') (Some (t_id t1))
                       (Some (t_title t1)) (Some (''Completed task: '' @ t_title t1)) s1))"

definition delete_task :: "ctx \<Rightarrow> int \<Rightarrow> db \<Rightarrow> response \<times> db" where
  "delete_task cx ident s =
     login_required cx s (LoginRequired, s) (\<lambda>u.
       case get_task s ident of
         None \<Rightarrow> (NotFound, s)
       | Some task \<Rightarrow>
           if t_user_id task \<noteq> Some (u_id u) then (Forbidden, s)
           else
             let task_title = t_title task;
                 s1 = s\<lparr>tbl_task := filter (\<lambda>t. t_id t \<noteq> ident) (tbl_task s)\<rparr>
             in (OK, log_activity cx ''deleted'' (Some ''task'') (Some ident)
                       (Some task_title) (Some (''Deleted task: '' @ task_title)) s1))"

section \<open>Dashboard and reports\<close>

record dashboard_data =
  total_clients :: nat
  total_properties :: nat
  active_deals :: nat
  total_revenue :: real
  recent_clients :: "client list"
  recent_properties :: "property list"
  upcoming_tasks :: "task list"
  upcoming_showings :: "showing list"

text \<open>
  The query behind \<^verbatim>\<open>upcoming_tasks\<close>:
  \<^verbatim>\<open>Task.query.filter(Task.user_id == uid, Task.status != 'completed')\<close>
  \<^verbatim>\<open>.order_by(Task.due_date).limit(5)\<close>. A NULL status fails \<^verbatim>\<open>!=\<close> in SQL.
\<close>

definition dashboard_upcoming_tasks :: "db \<Rightarrow> int \<Rightarrow> task list" where
  "dashboard_upcoming_tasks s uid =
     take 5 (sort_key t_due_date
       (filter (\<lambda>t. t_user_id t = Some uid \<and> t_status t \<noteq> None \<and>
                     t_status t \<noteq> Some ''completed'') (tbl_task s)))"

definition showing_of_agent :: "db \<Rightarrow> int \<Rightarrow> showing \<Rightarrow> bool" where
  "showing_of_agent s uid sh =
     (case get_property s (sh_property_id sh) of
        None \<Rightarrow> False
      | Some p \<Rightarrow> p_agent_id p = Some uid)"

definition dashboard :: "env \<Rightarrow> ctx \<Rightarrow> db \<Rightarrow> response \<times> dashboard_data option" where
  "dashboard ev cx s =
     login_required cx s (LoginRequired, None) (\<lambda>u.
       let uid = u_id u;
           own_clients = filter (\<lambda>c. c_agent_id c = Some uid) (tbl_client s);
           own_properties = filter (\<lambda>p. p_agent_id p = Some uid) (tbl_property s);
           closed_deals =
             filter (\<lambda>d. deal_of_agent s uid d \<and> d_status d = Some ''closed'') (tbl_deal s)
       in (OK, Some
            \<lparr>total_clients = length own_clients,
             total_properties = length own_properties,
             active_deals =
               length (filter (\<lambda>d. deal_of_agent s uid d \<and>
                   d_status d \<in> set [Some ''initiated'', Some ''negotiation'',
                                     Some ''under_contract'']) (tbl_deal s)),
             total_revenue = float_sum ev (map commission_amount closed_deals),
             recent_clients = take 5 (sort_key (\<lambda>c. - c_created_at c) own_clients),
             recent_properties = take 5 (sort_key (\<lambda>p. - p_created_at p) own_properties),
             upcoming_tasks = dashboard_upcoming_tasks s uid,
             upcoming_showings =
               take 5 (sort_key sh_scheduled_date
                 (filter (\<lambda>sh. showing_of_agent s uid sh \<and> utcnow cx \<le> sh_scheduled_date sh \<and>
                                sh_status sh = Some ''scheduled'') (tbl_showing s)))\<rparr>))"

record monthly_row =
  md_month :: string
  md_total_sales :: real
  md_commission :: real
  md_deals :: nat

definition month_names :: "string list" where
  "month_names =
     [''January'', ''February'', ''March'', ''April'', ''May'', ''June'', ''July'',
      ''August'', ''September'', ''October'', ''November'', ''December'']"

text \<open>
  The deals of one turn of the loop in \<^verbatim>\<open>reports()\<close>: closed deals of the agent with
  \<^verbatim>\<open>start_date <= closing_date < end_date\<close>, where \<^verbatim>\<open>end_date\<close> is the first day of the
  next month. A NULL closing date fails both comparisons.
\<close>

definition month_deals :: "db \<Rightarrow> int \<Rightarrow> int \<Rightarrow> nat \<Rightarrow> deal list" where
  "month_deals s uid current_year m =
     (let start_date = \<lparr>year = current_year, month = m, day = 1\<rparr>;
          end_date = (if m = 12 then \<lparr>year = current_year + 1, month = 1, day = 1\<rparr>
                      else \<lparr>year = current_year, month = m + 1, day = 1\<rparr>)
      in filter (\<lambda>d. deal_of_agent s uid d \<and> d_status d = Some ''closed'' \<and>
                      (case d_closing_date d of
                         None \<Rightarrow> False
                       | Some cd \<Rightarrow> date_le start_date cd \<and> date_lt cd end_date))
           (tbl_deal s))"

definition monthly_data :: "env \<Rightarrow> db \<Rightarrow> int \<Rightarrow> int \<Rightarrow> monthly_row list" where
  "monthly_data ev s uid current_year =
     map (\<lambda>m. let ds = month_deals s uid current_year m
               in \<lparr>md_month = month_names ! (m - 1),
                   md_total_sales = float_sum ev (map deal_price ds),
                   md_commission = float_sum ev (map commission_amount ds),
                   md_deals = length ds\<rparr>) [1..<13]"

text \<open>
  \<^verbatim>\<open>reports()\<close>, its monthly table. The two tallies it also renders (clients by source,
  properties by status) are left out.
\<close>

definition reports :: "env \<Rightarrow> ctx \<Rightarrow> db \<Rightarrow> response \<times> monthly_row list" where
  "reports ev cx s =
     login_required cx s (LoginRequired, [])
       (\<lambda>u. (OK, monthly_data ev s (u_id u) (year (today cx))))"

text \<open>
  The yearly totals of the specification, as exact sums: over the closed deals of the owner
  whose closing date lies in the year, the sum of the commission amounts and the sum of
  \<open>finalPrice ?? offerPrice ?? 0\<close>; and the sum of the prices as the code selects them.
\<close>

definition year_deals :: "db \<Rightarrow> int \<Rightarrow> int \<Rightarrow> deal list" where
  "year_deals s uid y =
     filter (\<lambda>d. deal_of_agent s uid d \<and> d_status d = Some ''closed'' \<and>
                  (case d_closing_date d of None \<Rightarrow> False | Some cd \<Rightarrow> year cd = y))
       (tbl_deal s)"

definition spec_year_commission :: "db \<Rightarrow> int \<Rightarrow> int \<Rightarrow> real" where
  "spec_year_commission s uid y = sum_list (map commission_amount (year_deals s uid y))"

definition spec_year_sales :: "db \<Rightarrow> int \<Rightarrow> int \<Rightarrow> real" where
  "spec_year_sales s uid y = sum_list (map spec_price (year_deals s uid y))"

definition year_sales_nonzero :: "db \<Rightarrow> int \<Rightarrow> int \<Rightarrow> real" where
  "year_sales_nonzero s uid y = sum_list (map nonzero_price (year_deals s uid y))"

section \<open>Login and logout\<close>

text \<open>
  \<^verbatim>\<open>login()\<close>. The session is part of the result. \<^verbatim>\<open>login_user\<close> refuses an account
  whose \<^verbatim>\<open>is_active\<close> is false and the handler ignores its answer, so the login is
  recorded and greeted all the same. The one failure exit serves an unknown username and
  a wrong password alike. \<^verbatim>\<open>check_password_hash\<close> raises on a request without a password
  field, which is reached only for a username that exists.
\<close>

definition login ::
  "env \<Rightarrow> ctx \<Rightarrow> http_method \<Rightarrow> string option \<Rightarrow> string option \<Rightarrow> db \<Rightarrow> response \<times> ctx \<times> db"
where
  "login ev cx method username password s =
     (if is_authenticated (current_user cx s) then (OK, cx, s)
      else if method = POST then
        (case find (\<lambda>u. Some (u_username u) = username) (tbl_user s) of
           None \<Rightarrow> (AuthFailure, cx, s)
         | Some user \<Rightarrow>
             (case password of
                None \<Rightarrow> (ServerError, cx, s)
              | Some pw \<Rightarrow>
                  if check_password_hash ev (u_password_hash user) pw then
                    (OK,
                     (if u_is_active user then cx\<lparr>session_user := Some (u_id user)\<rparr> else cx),
                     s\<lparr>tbl_activity := tbl_activity s @
                        [\<lparr>a_id = next_id (map a_id (tbl_activity s)), a_user_id = u_id user,
                          a_action = ''login'', a_entity_type = Some ''session'',
                          a_entity_id = None,
                          a_entity_name = Some (user_full_name user @ '' logged in''),
                          a_details = None, a_ip_address = remote_addr cx,
                          a_created_at = utcnow cx\<rparr>]\<rparr>)
                  else (AuthFailure, cx, s)))
      else (Page, cx, s))"

definition logout :: "ctx \<Rightarrow> db \<Rightarrow> response \<times> ctx \<times> db" where
  "logout cx s =
     login_required cx s (LoginRequired, cx, s) (\<lambda>u.
       (OK, cx\<lparr>session_user := None\<rparr>,
        log_activity cx ''logout'' (Some ''session'') None
          (Some (user_full_name u @ '' logged out'')) None s))"

section \<open>Staff management (admin only)\<close>

record staff_form =
  sf_username :: "string option"
  sf_email :: "string option"
  sf_password :: "string option"
  sf_role :: "string option"
  sf_first_name :: "string option"
  sf_last_name :: "string option"
  sf_phone :: "string option"
  sf_position :: "string option"
  sf_hire_date :: "date option"
  sf_commission_rate :: real
  sf_is_active :: "string option"
  sf_new_password :: "string option"

definition colors :: "string list" where
  "colors = [''#1a365d'', ''#2c5282'', ''#2b6cb0'', ''#38a169'', ''#d69e2e'', ''#805ad5'',
             ''#e53e3e'', ''#dd6b20'']"

text \<open>
  \<^verbatim>\<open>add_staff\<close>. \<^verbatim>\<open>set_password\<close> raises on a request without a password field;
  \<^verbatim>\<open>username\<close> and \<^verbatim>\<open>email\<close> are \<^verbatim>\<open>nullable=False\<close>. No call of \<^verbatim>\<open>log_activity\<close>.
\<close>

definition add_staff :: "env \<Rightarrow> ctx \<Rightarrow> http_method \<Rightarrow> staff_form \<Rightarrow> db \<Rightarrow> response \<times> db" where
  "add_staff ev cx method f s =
     login_required cx s (LoginRequired, s) (\<lambda>u.
       admin_required u (Forbidden, s)
         (if method = POST then
            if list_ex (\<lambda>x. Some (u_username x) = sf_username f) (tbl_user s)
            then (ValidationError, s)
            else if list_ex (\<lambda>x. Some (u_email x) = sf_email f) (tbl_user s)
            then (ValidationError, s)
            else
              (case (sf_password f, sf_username f, sf_email f) of
                 (Some password, Some username, Some email) \<Rightarrow>
                   (OK, s\<lparr>tbl_user := tbl_user s @
                     [\<lparr>u_id = next_id (map u_id (tbl_user s)), u_username = username,
                       u_email = email,
                       u_password_hash = generate_password_hash ev password,
                       u_role = (case sf_role f of None \<Rightarrow> ''staff'' | Some r \<Rightarrow> r),
                       u_first_name = sf_first_name f, u_last_name = sf_last_name f,
                       u_phone = sf_phone f, u_position = sf_position f,
                       u_hire_date = sf_hire_date f,
                       u_commission_rate = sf_commission_rate f, u_is_active = True,
                       u_avatar_color = colors ! (random_index ev mod length colors),
                       u_created_at = utcnow cx, u_created_by = Some (u_id u)\<rparr>]\<rparr>)
               | _ \<Rightarrow> (ServerError, s))
          else (Page, s)))"

definition edit_staff ::
  "env \<Rightarrow> ctx \<Rightarrow> http_method \<Rightarrow> int \<Rightarrow> staff_form \<Rightarrow> db \<Rightarrow> response \<times> db"
where
  "edit_staff ev cx method ident f s =
     login_required cx s (LoginRequired, s) (\<lambda>u.
       admin_required u (Forbidden, s)
         (case get_user s ident of
            None \<Rightarrow> (NotFound, s)
          | Some member \<Rightarrow>
              if method = POST then
                if sf_username f \<noteq> Some (u_username member) \<and>
                   list_ex (\<lambda>x. Some (u_username x) = sf_username f) (tbl_user s)
                then (ValidationError, s)
                else if sf_email f \<noteq> Some (u_email member) \<and>
                        list_ex (\<lambda>x. Some (u_email x) = sf_email f) (tbl_user s)
                then (ValidationError, s)
                else
                  (case (sf_username f, sf_email f) of
                     (Some username, Some email) \<Rightarrow>
                       let m1 = member\<lparr>u_username := username, u_email := email,
                                  u_role := (case sf_role f of None \<Rightarrow> ''staff'' | Some r \<Rightarrow> r),
                                  u_first_name := sf_first_name f,
                                  u_last_name := sf_last_name f, u_phone := sf_phone f,
                                  u_position := sf_position f, u_hire_date := sf_hire_date f,
                                  u_commission_rate := sf_commission_rate f,
                                  u_is_active := (sf_is_active f = Some ''on'')\<rparr>;
                           m2 = (case sf_new_password f of
                                   None \<Rightarrow> m1
                                 | Some pw \<Rightarrow>
                                     if pw \<noteq> []
                                     then m1\<lparr>u_password_hash := generate_password_hash ev pw\<rparr>
                                     else m1)
                       in (OK, s\<lparr>tbl_user :=
                                 map (\<lambda>x. if u_id x = ident then m2 else x) (tbl_user s)\<rparr>)
                   | _ \<Rightarrow> (ServerError, s))
              else (Page, s)))"

definition toggle_staff_status :: "ctx \<Rightarrow> int \<Rightarrow> db \<Rightarrow> response \<times> db" where
  "toggle_staff_status cx ident s =
     login_required cx s (LoginRequired, s) (\<lambda>u.
       admin_required u (Forbidden, s)
         (case get_user s ident of
            None \<Rightarrow> (NotFound, s)
          | Some member \<Rightarrow>
              (OK, s\<lparr>tbl_user :=
                     map (\<lambda>x. if u_id x = ident then member\<lparr>u_is_active := \<not> u_is_active member\<rparr>
                               else x) (tbl_user s)\<rparr>)))"

text \<open>
  \<^verbatim>\<open>delete_staff\<close>. Past the two refusals the account is deleted: the unit of work blanks
  \<^verbatim>\<open>user_id\<close> of its tasks (nullable) and of its activities (\<^verbatim>\<open>nullable=False\<close>, so an
  account with an Activity row cannot be deleted: IntegrityError at the commit).
\<close>

definition delete_staff :: "ctx \<Rightarrow> int \<Rightarrow> db \<Rightarrow> response \<times> db" where
  "delete_staff cx ident s =
     login_required cx s (LoginRequired, s) (\<lambda>u.
       admin_required u (Forbidden, s)
         (case get_user s ident of
            None \<Rightarrow> (NotFound, s)
          | Some member \<Rightarrow>
              if u_id member = u_id u then (ConflictError, s)
              else
                let has_clients =
                      find (\<lambda>c. c_agent_id c = Some (u_id member)) (tbl_client s);
                    has_properties =
                      find (\<lambda>p. p_agent_id p = Some (u_id member)) (tbl_property s)
                in if has_clients \<noteq> None \<or> has_properties \<noteq> None then (ConflictError, s)
                   else if list_ex (\<lambda>a. a_user_id a = u_id member) (tbl_activity s)
                   then (ServerError, s)
                   else
                     (OK, s\<lparr>tbl_user := filter (\<lambda>x. u_id x \<noteq> u_id member) (tbl_user s),
                            tbl_task :=
                              map (\<lambda>t. if t_user_id t = Some (u_id member)
                                        then t\<lparr>t_user_id := None\<rparr> else t) (tbl_task s)\<rparr>)))"

definition reset_staff_password ::
  "env \<Rightarrow> ctx \<Rightarrow> int \<Rightarrow> string option \<Rightarrow> db \<Rightarrow> response \<times> db"
where
  "reset_staff_password ev cx ident new_password s =
     login_required cx s (LoginRequired, s) (\<lambda>u.
       admin_required u (Forbidden, s)
         (case get_user s ident of
            None \<Rightarrow> (NotFound, s)
          | Some member \<Rightarrow>
              (case new_password of
                 None \<Rightarrow> (ValidationError, s)
               | Some pw \<Rightarrow>
                   if pw = [] \<or> length pw < 6 then (ValidationError, s)
                   else
                     (OK, s\<lparr>tbl_user :=
                            map (\<lambda>x. if u_id x = ident
                                      then member\<lparr>u_password_hash := generate_password_hash ev pw\<rparr>
                                      else x) (tbl_user s)\<rparr>))))"

section \<open>Predicates of the specification\<close>

text \<open>\<open>ys\<close> is \<open>xs\<close> with exactly one row appended.\<close>

definition appended :: "'a list \<Rightarrow> 'a list \<Rightarrow> bool" where
  "appended xs ys \<longleftrightarrow> ys \<noteq> [] \<and> butlast ys = xs"

text \<open>
  Between \<open>s\<close> and \<open>s'\<close> exactly one Activity row was appended, and it names the entity
  type and the entity id.
\<close>

definition logged_once :: "db \<Rightarrow> db \<Rightarrow> string \<Rightarrow> int \<Rightarrow> bool" where
  "logged_once s s' entity_type entity_id \<longleftrightarrow>
     appended (tbl_activity s) (tbl_activity s') \<and>
     a_entity_type (last (tbl_activity s')) = Some entity_type \<and>
     a_entity_id (last (tbl_activity s')) = Some entity_id"

text \<open>
  \<^verbatim>\<open>sum\<close> rounds nowhere on the amounts \<open>f\<close> of the deals \<open>ds\<close>: for every selection of
  the deals it returns the exact sum (as it does for whole amounts below \<open>2^53\<close>).
\<close>

definition sums_exact :: "env \<Rightarrow> (deal \<Rightarrow> real) \<Rightarrow> deal list \<Rightarrow> bool" where
  "sums_exact ev f ds \<longleftrightarrow>
     list_all (\<lambda>xs. float_sum ev (map f xs) = sum_list (map f xs)) (subseqs ds)"

text \<open>The filter of \<open>year_deals\<close> as a predicate.\<close>

definition closed_in_year :: "db \<Rightarrow> int \<Rightarrow> int \<Rightarrow> deal \<Rightarrow> bool" where
  "closed_in_year s uid y d \<longleftrightarrow>
     deal_of_agent s uid d \<and> d_status d = Some ''closed'' \<and>
     (case d_closing_date d of None \<Rightarrow> False | Some cd \<Rightarrow> year cd = y)"

section \<open>Example data\<close>

text \<open>The deal that \<^verbatim>\<open>add_deal\<close> stores from the form values
  \<^verbatim>\<open>offer_price=300000\<close>, \<^verbatim>\<open>final_price=0\<close>, \<^verbatim>\<open>commission_rate=3\<close>, and that form.\<close>

definition zero_final_deal :: deal where
  "zero_final_deal =
     \<lparr>d_id = 1, d_client_id = 1, d_property_id = 1, d_status = Some ''closed'',
      d_offer_price = Some 300000, d_final_price = Some 0, d_commission_rate = 3,
      d_closing_date = Some \<lparr>year = 2024, month = 5, day = 17\<rparr>, d_notes = None,
      d_created_at = 100, d_updated_at = 100\<rparr>"

definition zero_final_form :: deal_form where
  "zero_final_form =
     \<lparr>df_client_id = 1, df_property_id = 1, df_status = Some ''closed'',
      df_offer_price = 300000, df_final_price = Some 0, df_commission_rate = 3,
      df_closing_date = Some \<lparr>year = 2024, month = 5, day = 17\<rparr>, df_notes = None\<rparr>"

text \<open>
  An agency with an admin (id 1) and two staff agents, Alice (id 2) and Bob (id 3). Alice
  owns the client Jane Doe, a property with one showing, and four tasks.
\<close>

definition mk_user :: "int \<Rightarrow> string \<Rightarrow> string \<Rightarrow> user" where
  "mk_user i name role =
     \<lparr>u_id = i, u_username = name, u_email = name @ ''@estateflow.com'',
      u_password_hash = ''hash:'' @ name, u_role = role, u_first_name = None,
      u_last_name = None, u_phone = None, u_position = None, u_hire_date = None,
      u_commission_rate = 3, u_is_active = True, u_avatar_color = ''#1a365d'',
      u_created_at = 0, u_created_by = None\<rparr>"

definition jane :: client where
  "jane =
     \<lparr>c_id = 1, c_first_name = ''Jane'', c_last_name = ''Doe'', c_email = None,
      c_phone = None, c_client_type = Some ''buyer'', c_status = Some ''lead'',
      c_budget_min = Some 0, c_budget_max = Some 0, c_preferred_location = None,
      c_notes = None, c_source = None, c_created_at = 10, c_updated_at = 10,
      c_agent_id = Some 2\<rparr>"

definition villa :: property where
  "villa =
     \<lparr>p_id = 1, p_title = ''Villa'', p_property_type = Some ''house'',
      p_status = Some ''available'', p_listing_type = Some ''sale'', p_price = 300000,
      p_address = ''1 Main St'', p_city = None, p_state = None, p_zip_code = None,
      p_bedrooms = Some 0, p_bathrooms = Some 0, p_sqft = Some 0, p_lot_size = Some 0,
      p_year_built = Some 0, p_description = None, p_features = None, p_image_url = None,
      p_created_at = 11, p_updated_at = 11, p_agent_id = Some 2\<rparr>"

definition mk_task :: "int \<Rightarrow> string option \<Rightarrow> timestamp option \<Rightarrow> task" where
  "mk_task i status due =
     \<lparr>t_id = i, t_title = ''Call'', t_description = None, t_priority = Some ''medium'',
      t_status = status, t_due_date = due, t_completed_at = None, t_user_id = Some 2,
      t_created_at = 12\<rparr>"

definition demo_db :: db where
  "demo_db =
     \<lparr>tbl_user = [mk_user 1 ''admin'' ''admin'', mk_user 2 ''alice'' ''staff'',
                  mk_user 3 ''bob'' ''staff''],
      tbl_client = [jane],
      tbl_property = [villa],
      tbl_deal = [],
      tbl_interaction =
        [\<lparr>i_id = 1, i_client_id = 1, i_interaction_type = Some ''call'', i_subject = None,
          i_notes = None, i_created_at = 13\<rparr>],
      tbl_task = [mk_task 1 (Some ''pending'') (Some 50), mk_task 2 (Some ''pending'') None,
                  mk_task 3 (Some ''completed'') (Some 20),
                  mk_task 4 (Some ''in_progress'') (Some 30)],
      tbl_showing =
        [\<lparr>sh_id = 1, sh_property_id = 1, sh_client_name = Some ''Jane Doe'',
          sh_client_phone = None, sh_client_email = None, sh_scheduled_date = 99,
          sh_status = Some ''scheduled'', sh_feedback = None, sh_created_at = 14\<rparr>],
      tbl_activity = []\<rparr>"

definition as_user :: "int \<Rightarrow> ctx" where
  "as_user i =
     \<lparr>session_user = Some i, remote_addr = Some ''127.0.0.1'', utcnow = 100,
      today = \<lparr>year = 2024, month = 6, day = 1\<rparr>\<rparr>"

definition jane_form :: client_form where
  "jane_form =
     \<lparr>cf_first_name = Some ''Jane'', cf_last_name = Some ''Doe'', cf_email = None,
      cf_phone = None, cf_client_type = Some ''buyer'', cf_status = Some ''prospect'',
      cf_budget_min = 0, cf_budget_max = 0, cf_preferred_location = None,
      cf_source = None, cf_notes = None\<rparr>"

definition demo_deal :: deal where
  "demo_deal =
     \<lparr>d_id = 1, d_client_id = 1, d_property_id = 1, d_status = Some ''closed'',
      d_offer_price = Some 300000, d_final_price = None, d_commission_rate = 3,
      d_closing_date = Some \<lparr>year = 2024, month = 5, day = 17\<rparr>, d_notes = None,
      d_created_at = 15, d_updated_at = 15\<rparr>"

definition demo_deal_form :: deal_form where
  "demo_deal_form =
     \<lparr>df_client_id = 1, df_property_id = 1, df_status = Some ''closed'',
      df_offer_price = 300000, df_final_price = Some 310000, df_commission_rate = 3,
      df_closing_date = Some \<lparr>year = 2024, month = 5, day = 17\<rparr>, df_notes = None\<rparr>"

definition villa_form :: property_form where
  "villa_form =
     \<lparr>pf_title = Some ''Villa'', pf_property_type = Some ''house'', pf_status = Some ''pending'',
      pf_listing_type = Some ''sale'', pf_price = 295000, pf_address = Some ''1 Main St'',
      pf_city = None, pf_state = None, pf_zip_code = None, pf_bedrooms = 0,
      pf_bathrooms = 0, pf_sqft = 0, pf_lot_size = 0, pf_year_built = 0,
      pf_description = None, pf_features = None, pf_image_url = None\<rparr>"

definition demo_showing_form :: showing_form where
  "demo_showing_form =
     \<lparr>shf_client_name = Some ''Jane Doe'', shf_client_phone = None,
      shf_client_email = None, shf_scheduled_date = 200\<rparr>"

definition demo_task_form :: task_form where
  "demo_task_form =
     \<lparr>tf_title = Some ''Call'', tf_description = None, tf_priority = None,
      tf_due_date = Some 150\<rparr>"

definition demo_interaction_form :: interaction_form where
  "demo_interaction_form =
     \<lparr>if_interaction_type = Some ''call'', if_subject = None, if_notes = None\<rparr>"

definition demo_env :: env where
  "demo_env =
     \<lparr>check_password_hash = (\<lambda>h p. h = ''hash:'' @ p),
      generate_password_hash = (\<lambda>p. ''hash:'' @ p),
      format_price = (\<lambda>r. ''0''), random_index = 0, float_sum = sum_list\<rparr>"

definition carol_form :: staff_form where
  "carol_form =
     \<lparr>sf_username = Some ''carol'', sf_email = Some ''carol@estateflow.com'',
      sf_password = Some ''s3cret!'', sf_role = None, sf_first_name = Some ''Carol'',
      sf_last_name = Some ''Jones'', sf_phone = None, sf_position = None,
      sf_hire_date = None, sf_commission_rate = 3, sf_is_active = Some ''on'',
      sf_new_password = None\<rparr>"

section \<open>Commission\<close>

text \<open>
  C1, as stated, fails: \<^verbatim>\<open>add_deal\<close> stores a final price of 0 when the form says so, and
  with that and an offer of 300000 on record the code falls through to the offer and pays
  9000, where the claim's formula gives 0.
\<close>

theorem commission_zero_final_price_counterexample:
  "tbl_deal (snd (add_deal (as_user 2) POST zero_final_form demo_db)) = [zero_final_deal] \<and>
   commission_amount zero_final_deal = 9000 \<and>
   spec_commission_amount zero_final_deal = 0 \<and>
   commission_amount zero_final_deal \<noteq> spec_commission_amount zero_final_deal"
  by (simp add: commission_amount_def deal_price_def py_or_def spec_commission_amount_def
      spec_price_def zero_final_deal_def zero_final_form_def add_deal_def
      current_user_def get_user_def get_client_def get_property_def login_required_def
      is_authenticated_def log_activity_def next_id_def Let_def demo_db_def as_user_def mk_user_def jane_def
      villa_def)

text \<open>
  C1 (amended): for every deal, the commission amount is the price times
  \<open>commission_rate / 100\<close>, where the price is the final price if present and not zero,
  otherwise the offer price if present and not zero, otherwise 0. In particular a deal with
  a final price that is present and not zero pays \<open>final_price * commission_rate / 100\<close>,
  a deal with neither price pays 0, and whenever the final price is absent or not zero the
  amount is the one of the specification's formula.
\<close>

theorem commission_amount_nonzero_price:
  "commission_amount d = nonzero_price d * (d_commission_rate d / 100) \<and>
   (\<forall>p. d_final_price d = Some p \<and> p \<noteq> 0 \<longrightarrow>
      commission_amount d = p * d_commission_rate d / 100) \<and>
   (d_final_price d = None \<and> d_offer_price d = None \<longrightarrow> commission_amount d = 0) \<and>
   (d_final_price d \<noteq> Some 0 \<longrightarrow> commission_amount d = spec_commission_amount d)"
  by (auto simp: commission_amount_def deal_price_def py_or_def nonzero_price_def
      spec_commission_amount_def spec_price_def split: option.splits)

theorem commission_amount_nonzero_price_witness:
  "commission_amount (zero_final_deal\<lparr>d_final_price := Some 310000\<rparr>) = 9300 \<and>
   commission_amount (zero_final_deal\<lparr>d_final_price := None\<rparr>) = 9000 \<and>
   commission_amount (zero_final_deal\<lparr>d_final_price := None, d_offer_price := None\<rparr>) = 0"
  using commission_amount_nonzero_price [of "zero_final_deal\<lparr>d_final_price := Some 310000\<rparr>"]
    commission_amount_nonzero_price [of "zero_final_deal\<lparr>d_final_price := None\<rparr>"]
    commission_amount_nonzero_price
      [of "zero_final_deal\<lparr>d_final_price := None, d_offer_price := None\<rparr>"]
  by (simp add: zero_final_deal_def spec_commission_amount_def spec_price_def)

section \<open>Auxiliary facts\<close>

lemmas demo_defs =
  demo_db_def as_user_def mk_user_def jane_def villa_def mk_task_def jane_form_def
  demo_deal_def demo_deal_form_def villa_form_def demo_showing_form_def demo_task_form_def
  demo_interaction_form_def demo_env_def

lemmas handler_defs =
  current_user_def get_user_def get_client_def get_property_def get_deal_def get_task_def
  login_required_def is_authenticated_def admin_required_def is_admin_def log_activity_def
  next_id_def client_full_name_def py_str_def Let_def

lemma current_user_frame:
  "current_user cx (s\<lparr>tbl_client := cs\<rparr>) = current_user cx s"
  "current_user cx (s\<lparr>tbl_property := ps\<rparr>) = current_user cx s"
  "current_user cx (s\<lparr>tbl_deal := ds\<rparr>) = current_user cx s"
  "current_user cx (s\<lparr>tbl_interaction := is\<rparr>) = current_user cx s"
  "current_user cx (s\<lparr>tbl_task := ts\<rparr>) = current_user cx s"
  "current_user cx (s\<lparr>tbl_showing := shs\<rparr>) = current_user cx s"
  "current_user cx (s\<lparr>tbl_activity := as\<rparr>) = current_user cx s"
  by (simp_all add: current_user_def get_user_def split: option.splits)

lemma login_required_OK:
  "fst (login_required cx s (LoginRequired, x) f) = OK \<Longrightarrow>
   \<exists>u. current_user cx s = Some u \<and> u_is_active u"
  by (auto simp: login_required_def is_authenticated_def split: option.splits if_splits)

lemma log_activity_logged:
  assumes "current_user cx s = Some u" and "u_is_active u"
  shows "logged_once s0 (log_activity cx a (Some et) (Some ei) en d s) et ei \<longleftrightarrow>
         tbl_activity s = tbl_activity s0"
  using assms
  by (auto simp: log_activity_def is_authenticated_def logged_once_def appended_def)

lemma log_activity_frame:
  "tbl_user (log_activity cx a et ei en d s) = tbl_user s"
  "tbl_client (log_activity cx a et ei en d s) = tbl_client s"
  "tbl_property (log_activity cx a et ei en d s) = tbl_property s"
  "tbl_deal (log_activity cx a et ei en d s) = tbl_deal s"
  "tbl_interaction (log_activity cx a et ei en d s) = tbl_interaction s"
  "tbl_task (log_activity cx a et ei en d s) = tbl_task s"
  "tbl_showing (log_activity cx a et ei en d s) = tbl_showing s"
  by (simp_all add: log_activity_def split: option.splits)

lemma add_client_logged:
  assumes "fst (add_client cx m f s) = OK"
  shows "appended (tbl_client s) (tbl_client (snd (add_client cx m f s))) \<and>
         logged_once s (snd (add_client cx m f s)) ''client''
           (c_id (last (tbl_client (snd (add_client cx m f s)))))"
proof -
  obtain u where u: "current_user cx s = Some u" "u_is_active u"
    using assms unfolding add_client_def by (blast dest: login_required_OK)
  from assms u obtain fn ln where n: "cf_first_name f = Some fn" "cf_last_name f = Some ln" "m = POST"
    by (auto simp: add_client_def login_required_def is_authenticated_def split: option.splits if_splits)
  show ?thesis
    using u n
    by (simp add: add_client_def login_required_def is_authenticated_def Let_def log_activity_frame
        log_activity_logged [where u = u] current_user_frame appended_def)
qed

lemma edit_client_logged:
  assumes "fst (edit_client cx m i f s) = OK"
  shows "logged_once s (snd (edit_client cx m i f s)) ''client'' i"
proof -
  obtain u where u: "current_user cx s = Some u" "u_is_active u"
    using assms unfolding edit_client_def by (blast dest: login_required_OK)
  from assms u obtain c fn ln where n: "get_client s i = Some c" "c_agent_id c = Some (u_id u)"
      "cf_first_name f = Some fn" "cf_last_name f = Some ln" "m = POST"
    by (auto simp: edit_client_def login_required_def is_authenticated_def split: option.splits if_splits)
  have ci: "c_id c = i"
    using n(1) by (auto simp: get_client_def find_Some_iff)
  show ?thesis
    using u n ci
    by (simp add: edit_client_def login_required_def is_authenticated_def Let_def log_activity_frame
        log_activity_logged [where u = u] current_user_frame)
qed

lemma delete_client_logged:
  assumes "fst (delete_client cx i s) = OK"
  shows "logged_once s (snd (delete_client cx i s)) ''client'' i"
proof -
  obtain u where u: "current_user cx s = Some u" "u_is_active u"
    using assms unfolding delete_client_def by (blast dest: login_required_OK)
  from assms u obtain c where n: "get_client s i = Some c" "c_agent_id c = Some (u_id u)"
      "\<not> list_ex (\<lambda>d. d_client_id d = i) (tbl_deal s)"
    by (auto simp: delete_client_def login_required_def is_authenticated_def split: option.splits if_splits)
  show ?thesis
    using u n
    by (simp add: delete_client_def login_required_def is_authenticated_def Let_def log_activity_frame
        log_activity_logged [where u = u] current_user_frame)
qed


lemma find_id: "find (\<lambda>x. k x = i) xs = Some y \<Longrightarrow> k y = i"
  by (auto simp: find_Some_iff)

lemma add_property_logged:
  assumes "fst (add_property ev cx m f s) = OK"
  shows "appended (tbl_property s) (tbl_property (snd (add_property ev cx m f s))) \<and>
         logged_once s (snd (add_property ev cx m f s)) ''property''
           (p_id (last (tbl_property (snd (add_property ev cx m f s)))))"
proof -
  obtain u where u: "current_user cx s = Some u" "u_is_active u"
    using assms unfolding add_property_def by (blast dest: login_required_OK)
  from assms u obtain ti ad where n: "pf_title f = Some ti" "pf_address f = Some ad" "m = POST"
    by (auto simp: add_property_def login_required_def is_authenticated_def split: option.splits if_splits)
  show ?thesis
    using u n
    by (simp add: add_property_def login_required_def is_authenticated_def Let_def log_activity_frame
        log_activity_logged [where u = u] current_user_frame appended_def)
qed

lemma edit_property_logged:
  assumes "fst (edit_property cx m i f s) = OK"
  shows "logged_once s (snd (edit_property cx m i f s)) ''property'' i"
proof -
  obtain u where u: "current_user cx s = Some u" "u_is_active u"
    using assms unfolding edit_property_def by (blast dest: login_required_OK)
  from assms u obtain p ti ad where n: "get_property s i = Some p" "p_agent_id p = Some (u_id u)"
      "pf_title f = Some ti" "pf_address f = Some ad" "m = POST"
    by (auto simp: edit_property_def login_required_def is_authenticated_def split: option.splits if_splits)
  have "p_id p = i"
    using n(1) unfolding get_property_def by (rule find_id)
  then show ?thesis
    using u n
    by (simp add: edit_property_def login_required_def is_authenticated_def Let_def log_activity_frame
        log_activity_logged [where u = u] current_user_frame)
qed

lemma delete_property_logged:
  assumes "fst (delete_property cx i s) = OK"
  shows "logged_once s (snd (delete_property cx i s)) ''property'' i"
proof -
  obtain u where u: "current_user cx s = Some u" "u_is_active u"
    using assms unfolding delete_property_def by (blast dest: login_required_OK)
  from assms u obtain p where n: "get_property s i = Some p" "p_agent_id p = Some (u_id u)"
      "\<not> list_ex (\<lambda>d. d_property_id d = i) (tbl_deal s)"
    by (auto simp: delete_property_def login_required_def is_authenticated_def split: option.splits if_splits)
  show ?thesis
    using u n
    by (simp add: delete_property_def login_required_def is_authenticated_def Let_def log_activity_frame
        log_activity_logged [where u = u] current_user_frame)
qed

lemma add_showing_logged:
  assumes "fst (add_showing cx i f s) = OK"
  shows "appended (tbl_showing s) (tbl_showing (snd (add_showing cx i f s))) \<and>
         logged_once s (snd (add_showing cx i f s)) ''showing''
           (sh_id (last (tbl_showing (snd (add_showing cx i f s)))))"
proof -
  obtain u where u: "current_user cx s = Some u" "u_is_active u"
    using assms unfolding add_showing_def by (blast dest: login_required_OK)
  from assms u obtain p where n: "get_property s i = Some p" "p_agent_id p = Some (u_id u)"
    by (auto simp: add_showing_def login_required_def is_authenticated_def split: option.splits if_splits)
  show ?thesis
    using u n
    by (simp add: add_showing_def login_required_def is_authenticated_def Let_def log_activity_frame
        log_activity_logged [where u = u] current_user_frame appended_def)
qed

lemma add_deal_logged:
  assumes "fst (add_deal cx m f s) = OK"
  shows "appended (tbl_deal s) (tbl_deal (snd (add_deal cx m f s))) \<and>
         logged_once s (snd (add_deal cx m f s)) ''deal''
           (d_id (last (tbl_deal (snd (add_deal cx m f s)))))"
proof -
  obtain u where u: "current_user cx s = Some u" "u_is_active u"
    using assms unfolding add_deal_def by (blast dest: login_required_OK)
  from assms u obtain p c where n: "m = POST" "get_property s (df_property_id f) = Some p"
      "get_client s (df_client_id f) = Some c"
    by (auto simp: add_deal_def login_required_def is_authenticated_def Let_def get_property_def get_client_def
        split: option.splits if_splits)
  show ?thesis
    using u n
    by (simp add: add_deal_def login_required_def is_authenticated_def Let_def log_activity_frame
        log_activity_logged [where u = u] current_user_frame appended_def
        get_property_def get_client_def)
qed

lemma add_task_logged:
  assumes "fst (add_task cx f s) = OK"
  shows "appended (tbl_task s) (tbl_task (snd (add_task cx f s))) \<and>
         logged_once s (snd (add_task cx f s)) ''task''
           (t_id (last (tbl_task (snd (add_task cx f s)))))"
proof -
  obtain u where u: "current_user cx s = Some u" "u_is_active u"
    using assms unfolding add_task_def by (blast dest: login_required_OK)
  from assms u obtain ti where n: "tf_title f = Some ti"
    by (auto simp: add_task_def login_required_def is_authenticated_def split: option.splits if_splits)
  show ?thesis
    using u n
    by (simp add: add_task_def login_required_def is_authenticated_def Let_def log_activity_frame
        log_activity_logged [where u = u] current_user_frame appended_def)
qed

lemma toggle_task_logged:
  assumes "fst (toggle_task cx i s) = OK"
  shows "logged_once s (snd (toggle_task cx i s)) ''task'' i"
proof -
  obtain u where u: "current_user cx s = Some u" "u_is_active u"
    using assms unfolding toggle_task_def by (blast dest: login_required_OK)
  from assms u obtain t where n: "get_task s i = Some t" "t_user_id t = Some (u_id u)"
    by (auto simp: toggle_task_def login_required_def is_authenticated_def split: option.splits if_splits)
  have "t_id t = i"
    using n(1) unfolding get_task_def by (rule find_id)
  then show ?thesis
    using u n
    by (simp add: toggle_task_def login_required_def is_authenticated_def Let_def log_activity_frame
        log_activity_logged [where u = u] current_user_frame)
qed

lemma delete_task_logged:
  assumes "fst (delete_task cx i s) = OK"
  shows "logged_once s (snd (delete_task cx i s)) ''task'' i"
proof -
  obtain u where u: "current_user cx s = Some u" "u_is_active u"
    using assms unfolding delete_task_def by (blast dest: login_required_OK)
  from assms u obtain t where n: "get_task s i = Some t" "t_user_id t = Some (u_id u)"
    by (auto simp: delete_task_def login_required_def is_authenticated_def split: option.splits if_splits)
  show ?thesis
    using u n
    by (simp add: delete_task_def login_required_def is_authenticated_def Let_def log_activity_frame
        log_activity_logged [where u = u] current_user_frame)
qed

lemma deal_unchanged_D:
  "d\<lparr>d_client_id := a, d_property_id := b, d_status := c, d_offer_price := e,
     d_final_price := g, d_commission_rate := h, d_closing_date := j, d_notes := k\<rparr> = d
   \<Longrightarrow> d_property_id d = b \<and> d_status d = c"
  by (cases d) simp

lemma edit_deal_logged:
  assumes "fst (edit_deal cx m i f s) = OK"
  shows "logged_once s (snd (edit_deal cx m i f s)) ''deal'' i"
proof -
  obtain u where u: "current_user cx s = Some u" "u_is_active u"
    using assms unfolding edit_deal_def by (blast dest: login_required_OK)
  from assms u obtain d c where n: "get_deal s i = Some d" "get_client s (d_client_id d) = Some c"
      "c_agent_id c = Some (u_id u)" "m = POST"
    by (auto simp: edit_deal_def login_required_def is_authenticated_def split: option.splits if_splits)
  have di: "d_id d = i"
    using n(1) unfolding get_deal_def by (rule find_id)
  from assms u n obtain p where p: "get_property s (df_property_id f) = Some p"
    by (auto simp: edit_deal_def login_required_def is_authenticated_def Let_def get_property_def
        split: option.splits if_splits dest!: deal_unchanged_D)
  show ?thesis
    using u n di p
    by (auto simp: edit_deal_def login_required_def is_authenticated_def Let_def log_activity_frame
        log_activity_logged [where u = u] current_user_frame get_property_def
        dest!: deal_unchanged_D)
qed

lemma denied_no_write:
  "fst (edit_client cx m i cf s) = Forbidden \<Longrightarrow> snd (edit_client cx m i cf s) = s"
  "fst (delete_client cx i s) = Forbidden \<Longrightarrow> snd (delete_client cx i s) = s"
  "fst (add_interaction cx i nf s) = Forbidden \<Longrightarrow> snd (add_interaction cx i nf s) = s"
  "fst (edit_property cx m i pf s) = Forbidden \<Longrightarrow> snd (edit_property cx m i pf s) = s"
  "fst (delete_property cx i s) = Forbidden \<Longrightarrow> snd (delete_property cx i s) = s"
  "fst (add_showing cx i shf s) = Forbidden \<Longrightarrow> snd (add_showing cx i shf s) = s"
  "fst (edit_deal cx m i df s) = Forbidden \<Longrightarrow> snd (edit_deal cx m i df s) = s"
  "fst (toggle_task cx i s) = Forbidden \<Longrightarrow> snd (toggle_task cx i s) = s"
  "fst (delete_task cx i s) = Forbidden \<Longrightarrow> snd (delete_task cx i s) = s"
  by (auto simp: edit_client_def delete_client_def add_interaction_def edit_property_def
      delete_property_def add_showing_def edit_deal_def toggle_task_def delete_task_def
      login_required_def is_authenticated_def Let_def split: option.splits if_splits)

section \<open>Ownership of clients\<close>

text \<open>
  C2, as stated, fails in its second half: the handlers compare \<^verbatim>\<open>client.agent_id\<close> with
  \<^verbatim>\<open>current_user.id\<close> and never look at the role, so the admin (id 1) is turned away from
  Alice's client like anybody else.
\<close>

theorem admin_not_owner_counterexample:
  "current_user (as_user 1) demo_db = Some (mk_user 1 ''admin'' ''admin'') \<and>
   is_admin (mk_user 1 ''admin'' ''admin'') \<and> u_is_active (mk_user 1 ''admin'' ''admin'') \<and>
   get_client demo_db 1 = Some jane \<and> c_agent_id jane = Some 2 \<and>
   view_client (as_user 1) 1 demo_db = (Forbidden, None) \<and>
   edit_client (as_user 1) GET 1 jane_form demo_db = (Forbidden, demo_db) \<and>
   edit_client (as_user 1) POST 1 jane_form demo_db = (Forbidden, demo_db)"
  by (simp add: handler_defs demo_defs view_client_def edit_client_def)

text \<open>
  C2 (amended): for every client owned by agent X, an authenticated actor Y (the session of
  an active account) with Y \<open>\<noteq>\<close> X, admin or not, who invokes the client detail (get) or the
  edit operation on that client's id receives Forbidden and nothing is written; X itself
  succeeds: the detail page is served, the edit form is rendered, and an edit that carries
  both names is carried out. The ownership check passes exactly when the acting user's id
  is the client's \<open>agent_id\<close>, whatever the role. (The session of a deactivated account
  is sent to the login page before any check.)
\<close>

theorem client_access_owner_only:
  assumes "current_user cx s = Some y" and "u_is_active y" and "get_client s i = Some c"
  shows "(fst (view_client cx i s) = Forbidden \<longleftrightarrow> c_agent_id c \<noteq> Some (u_id y)) \<and>
         (fst (edit_client cx m i f s) = Forbidden \<longleftrightarrow> c_agent_id c \<noteq> Some (u_id y)) \<and>
         (c_agent_id c \<noteq> Some (u_id y) \<longrightarrow>
            view_client cx i s = (Forbidden, None) \<and> edit_client cx m i f s = (Forbidden, s)) \<and>
         (c_agent_id c = Some (u_id y) \<longrightarrow>
            fst (view_client cx i s) = OK \<and>
            edit_client cx GET i f s = (Page, s) \<and>
            (cf_first_name f \<noteq> None \<and> cf_last_name f \<noteq> None \<longrightarrow>
               fst (edit_client cx POST i f s) = OK))"
  using assms
  by (auto simp: view_client_def edit_client_def login_required_def is_authenticated_def Let_def
      split: option.splits)

theorem client_access_owner_only_witness:
  "view_client (as_user 3) 1 demo_db = (Forbidden, None) \<and>
   edit_client (as_user 3) POST 1 jane_form demo_db = (Forbidden, demo_db) \<and>
   fst (view_client (as_user 2) 1 demo_db) = OK \<and>
   edit_client (as_user 2) GET 1 jane_form demo_db = (Page, demo_db) \<and>
   fst (edit_client (as_user 2) POST 1 jane_form demo_db) = OK"
proof -
  have bob: "current_user (as_user 3) demo_db = Some (mk_user 3 ''bob'' ''staff'')"
    by (simp add: handler_defs demo_defs)
  have alice: "current_user (as_user 2) demo_db = Some (mk_user 2 ''alice'' ''staff'')"
    by (simp add: handler_defs demo_defs)
  have active: "u_is_active (mk_user 3 ''bob'' ''staff'')"
    "u_is_active (mk_user 2 ''alice'' ''staff'')"
    by (simp_all add: mk_user_def)
  have c: "get_client demo_db 1 = Some jane"
    by (simp add: handler_defs demo_defs)
  show ?thesis
    using client_access_owner_only [OF bob active(1) c, of POST jane_form]
      client_access_owner_only [OF alice active(2) c, of POST jane_form]
    by (simp add: jane_def mk_user_def jane_form_def)
qed

section \<open>The audit trail of the mutations\<close>

text \<open>
  C3: every successful create, update or delete of a client, property, deal, task or
  showing appends exactly one Activity row, whose entity type and entity id are those of
  the row that was created, changed or deleted; an operation that the ownership check
  denies leaves the whole database, the audit log included, as it was. The handlers are all
  the mutations the application has for these entities (a deal is never deleted, a showing
  only created; rows removed by a cascade belong to the operation on their parent).
\<close>

theorem mutations_logged_once_denials_silent:
  "(fst (add_client cx m cf s) = OK \<longrightarrow>
      appended (tbl_client s) (tbl_client (snd (add_client cx m cf s))) \<and>
      logged_once s (snd (add_client cx m cf s)) ''client''
        (c_id (last (tbl_client (snd (add_client cx m cf s)))))) \<and>
   (fst (edit_client cx m i cf s) = OK \<longrightarrow>
      logged_once s (snd (edit_client cx m i cf s)) ''client'' i) \<and>
   (fst (delete_client cx i s) = OK \<longrightarrow>
      logged_once s (snd (delete_client cx i s)) ''client'' i) \<and>
   (fst (add_property ev cx m pf s) = OK \<longrightarrow>
      appended (tbl_property s) (tbl_property (snd (add_property ev cx m pf s))) \<and>
      logged_once s (snd (add_property ev cx m pf s)) ''property''
        (p_id (last (tbl_property (snd (add_property ev cx m pf s)))))) \<and>
   (fst (edit_property cx m i pf s) = OK \<longrightarrow>
      logged_once s (snd (edit_property cx m i pf s)) ''property'' i) \<and>
   (fst (delete_property cx i s) = OK \<longrightarrow>
      logged_once s (snd (delete_property cx i s)) ''property'' i) \<and>
   (fst (add_showing cx i shf s) = OK \<longrightarrow>
      appended (tbl_showing s) (tbl_showing (snd (add_showing cx i shf s))) \<and>
      logged_once s (snd (add_showing cx i shf s)) ''showing''
        (sh_id (last (tbl_showing (snd (add_showing cx i shf s)))))) \<and>
   (fst (add_deal cx m df s) = OK \<longrightarrow>
      appended (tbl_deal s) (tbl_deal (snd (add_deal cx m df s))) \<and>
      logged_once s (snd (add_deal cx m df s)) ''deal''
        (d_id (last (tbl_deal (snd (add_deal cx m df s)))))) \<and>
   (fst (edit_deal cx m i df s) = OK \<longrightarrow>
      logged_once s (snd (edit_deal cx m i df s)) ''deal'' i) \<and>
   (fst (add_task cx tf s) = OK \<longrightarrow>
      appended (tbl_task s) (tbl_task (snd (add_task cx tf s))) \<and>
      logged_once s (snd (add_task cx tf s)) ''task''
        (t_id (last (tbl_task (snd (add_task cx tf s)))))) \<and>
   (fst (toggle_task cx i s) = OK \<longrightarrow>
      logged_once s (snd (toggle_task cx i s)) ''task'' i) \<and>
   (fst (delete_task cx i s) = OK \<longrightarrow>
      logged_once s (snd (delete_task cx i s)) ''task'' i) \<and>
   (fst (edit_client cx m i cf s) = Forbidden \<longrightarrow> snd (edit_client cx m i cf s) = s) \<and>
   (fst (delete_client cx i s) = Forbidden \<longrightarrow> snd (delete_client cx i s) = s) \<and>
   (fst (edit_property cx m i pf s) = Forbidden \<longrightarrow> snd (edit_property cx m i pf s) = s) \<and>
   (fst (delete_property cx i s) = Forbidden \<longrightarrow> snd (delete_property cx i s) = s) \<and>
   (fst (add_showing cx i shf s) = Forbidden \<longrightarrow> snd (add_showing cx i shf s) = s) \<and>
   (fst (edit_deal cx m i df s) = Forbidden \<longrightarrow> snd (edit_deal cx m i df s) = s) \<and>
   (fst (toggle_task cx i s) = Forbidden \<longrightarrow> snd (toggle_task cx i s) = s) \<and>
   (fst (delete_task cx i s) = Forbidden \<longrightarrow> snd (delete_task cx i s) = s)"
proof -
  note logged = add_client_logged edit_client_logged delete_client_logged
    add_property_logged edit_property_logged delete_property_logged add_showing_logged
    add_deal_logged edit_deal_logged add_task_logged toggle_task_logged delete_task_logged
  show ?thesis
    by (intro conjI impI) (simp_all add: logged denied_no_write)
qed

theorem mutations_logged_once_denials_silent_witness:
  "fst (add_client (as_user 2) POST jane_form demo_db) = OK \<and>
   logged_once demo_db (snd (add_client (as_user 2) POST jane_form demo_db)) ''client'' 2 \<and>
   fst (edit_client (as_user 2) POST 1 jane_form demo_db) = OK \<and>
   logged_once demo_db (snd (edit_client (as_user 2) POST 1 jane_form demo_db)) ''client'' 1 \<and>
   fst (delete_client (as_user 2) 1 demo_db) = OK \<and>
   logged_once demo_db (snd (delete_client (as_user 2) 1 demo_db)) ''client'' 1 \<and>
   fst (add_property demo_env (as_user 2) POST villa_form demo_db) = OK \<and>
   logged_once demo_db (snd (add_property demo_env (as_user 2) POST villa_form demo_db))
     ''property'' 2 \<and>
   fst (edit_property (as_user 2) POST 1 villa_form demo_db) = OK \<and>
   logged_once demo_db (snd (edit_property (as_user 2) POST 1 villa_form demo_db))
     ''property'' 1 \<and>
   fst (delete_property (as_user 2) 1 demo_db) = OK \<and>
   logged_once demo_db (snd (delete_property (as_user 2) 1 demo_db)) ''property'' 1 \<and>
   fst (add_showing (as_user 2) 1 demo_showing_form demo_db) = OK \<and>
   logged_once demo_db (snd (add_showing (as_user 2) 1 demo_showing_form demo_db))
     ''showing'' 2 \<and>
   fst (add_deal (as_user 2) POST demo_deal_form demo_db) = OK \<and>
   logged_once demo_db (snd (add_deal (as_user 2) POST demo_deal_form demo_db)) ''deal'' 1 \<and>
   fst (edit_deal (as_user 2) POST 1 demo_deal_form (demo_db\<lparr>tbl_deal := [demo_deal]\<rparr>)) = OK \<and>
   logged_once (demo_db\<lparr>tbl_deal := [demo_deal]\<rparr>)
     (snd (edit_deal (as_user 2) POST 1 demo_deal_form (demo_db\<lparr>tbl_deal := [demo_deal]\<rparr>)))
     ''deal'' 1 \<and>
   fst (add_task (as_user 2) demo_task_form demo_db) = OK \<and>
   logged_once demo_db (snd (add_task (as_user 2) demo_task_form demo_db)) ''task'' 5 \<and>
   fst (toggle_task (as_user 2) 1 demo_db) = OK \<and>
   logged_once demo_db (snd (toggle_task (as_user 2) 1 demo_db)) ''task'' 1 \<and>
   fst (delete_task (as_user 2) 1 demo_db) = OK \<and>
   logged_once demo_db (snd (delete_task (as_user 2) 1 demo_db)) ''task'' 1 \<and>
   fst (edit_client (as_user 3) POST 1 jane_form demo_db) = Forbidden \<and>
   snd (edit_client (as_user 3) POST 1 jane_form demo_db) = demo_db \<and>
   fst (delete_client (as_user 3) 1 demo_db) = Forbidden \<and>
   snd (delete_client (as_user 3) 1 demo_db) = demo_db \<and>
   fst (edit_property (as_user 3) POST 1 villa_form demo_db) = Forbidden \<and>
   snd (edit_property (as_user 3) POST 1 villa_form demo_db) = demo_db \<and>
   fst (delete_property (as_user 3) 1 demo_db) = Forbidden \<and>
   snd (delete_property (as_user 3) 1 demo_db) = demo_db \<and>
   fst (add_showing (as_user 3) 1 demo_showing_form demo_db) = Forbidden \<and>
   snd (add_showing (as_user 3) 1 demo_showing_form demo_db) = demo_db \<and>
   fst (edit_deal (as_user 3) POST 1 demo_deal_form (demo_db\<lparr>tbl_deal := [demo_deal]\<rparr>))
     = Forbidden \<and>
   snd (edit_deal (as_user 3) POST 1 demo_deal_form (demo_db\<lparr>tbl_deal := [demo_deal]\<rparr>))
     = demo_db\<lparr>tbl_deal := [demo_deal]\<rparr> \<and>
   fst (toggle_task (as_user 3) 1 demo_db) = Forbidden \<and>
   snd (toggle_task (as_user 3) 1 demo_db) = demo_db \<and>
   fst (delete_task (as_user 3) 1 demo_db) = Forbidden \<and>
   snd (delete_task (as_user 3) 1 demo_db) = demo_db"
proof -
  let ?a = "as_user 2" and ?b = "as_user 3" and ?s = demo_db
    and ?sd = "demo_db\<lparr>tbl_deal := [demo_deal]\<rparr>"
  have ok:
    "fst (add_client ?a POST jane_form ?s) = OK"
    "fst (edit_client ?a POST 1 jane_form ?s) = OK"
    "fst (delete_client ?a 1 ?s) = OK"
    "fst (add_property demo_env ?a POST villa_form ?s) = OK"
    "fst (edit_property ?a POST 1 villa_form ?s) = OK"
    "fst (delete_property ?a 1 ?s) = OK"
    "fst (add_showing ?a 1 demo_showing_form ?s) = OK"
    "fst (add_deal ?a POST demo_deal_form ?s) = OK"
    "fst (edit_deal ?a POST 1 demo_deal_form ?sd) = OK"
    "fst (add_task ?a demo_task_form ?s) = OK"
    "fst (toggle_task ?a 1 ?s) = OK"
    "fst (delete_task ?a 1 ?s) = OK"
    by (simp_all add: handler_defs demo_defs add_client_def edit_client_def delete_client_def
        add_property_def edit_property_def delete_property_def add_showing_def add_deal_def
        edit_deal_def add_task_def toggle_task_def delete_task_def)
  have new:
    "c_id (last (tbl_client (snd (add_client ?a POST jane_form ?s)))) = 2"
    "p_id (last (tbl_property (snd (add_property demo_env ?a POST villa_form ?s)))) = 2"
    "sh_id (last (tbl_showing (snd (add_showing ?a 1 demo_showing_form ?s)))) = 2"
    "d_id (last (tbl_deal (snd (add_deal ?a POST demo_deal_form ?s)))) = 1"
    "t_id (last (tbl_task (snd (add_task ?a demo_task_form ?s)))) = 5"
    by (simp_all add: handler_defs demo_defs add_client_def add_property_def add_showing_def
        add_deal_def add_task_def)
  have denied:
    "fst (edit_client ?b POST 1 jane_form ?s) = Forbidden"
    "fst (delete_client ?b 1 ?s) = Forbidden"
    "fst (edit_property ?b POST 1 villa_form ?s) = Forbidden"
    "fst (delete_property ?b 1 ?s) = Forbidden"
    "fst (add_showing ?b 1 demo_showing_form ?s) = Forbidden"
    "fst (edit_deal ?b POST 1 demo_deal_form ?sd) = Forbidden"
    "fst (toggle_task ?b 1 ?s) = Forbidden"
    "fst (delete_task ?b 1 ?s) = Forbidden"
    by (simp_all add: handler_defs demo_defs edit_client_def delete_client_def
        edit_property_def delete_property_def add_showing_def edit_deal_def toggle_task_def
        delete_task_def)
  show ?thesis
    using
      mutations_logged_once_denials_silent [where cx = ?a and s = ?s and m = POST and i = 1
        and cf = jane_form and ev = demo_env and pf = villa_form and shf = demo_showing_form
        and df = demo_deal_form and tf = demo_task_form]
      mutations_logged_once_denials_silent [where cx = ?a and s = ?sd and m = POST and i = 1
        and df = demo_deal_form]
      mutations_logged_once_denials_silent [where cx = ?b and s = ?s and m = POST and i = 1
        and cf = jane_form and pf = villa_form and shf = demo_showing_form]
      mutations_logged_once_denials_silent [where cx = ?b and s = ?sd and m = POST and i = 1
        and df = demo_deal_form]
    by (simp add: ok new denied)
qed

section \<open>Owner-scoped listings\<close>

text \<open>
  C4: for every entity owned by agent A (a client, a property, a task, or a deal through
  its client) and every acting user B with B \<open>\<noteq>\<close> A, the listing that B asks for never
  contains the entity, whatever the status, type, listing and priority filters and the
  search string are. The role of B plays no part, so this holds for a non-admin B in
  particular.
\<close>

theorem listings_exclude_foreign_entities:
  assumes "current_user cx s = Some b" and "a \<noteq> u_id b"
  shows "(c_agent_id c = Some a \<longrightarrow>
            c \<notin> set (snd (clients cx status_filter type_filter search s))) \<and>
         (p_agent_id p = Some a \<longrightarrow>
            p \<notin> set (snd (properties cx status_filter type_filter listing_filter search s))) \<and>
         (t_user_id t = Some a \<longrightarrow>
            t \<notin> set (snd (tasks cx status_filter priority_filter s))) \<and>
         ((\<exists>owner. get_client s (d_client_id d) = Some owner \<and> c_agent_id owner = Some a) \<longrightarrow>
            d \<notin> set (snd (deals cx status_filter s)))"
proof (intro conjI impI)
  assume "c_agent_id c = Some a"
  with assms show "c \<notin> set (snd (clients cx status_filter type_filter search s))"
    by (auto simp: clients_def login_required_def is_authenticated_def Let_def)
next
  assume "p_agent_id p = Some a"
  with assms
  show "p \<notin> set (snd (properties cx status_filter type_filter listing_filter search s))"
    by (auto simp: properties_def login_required_def is_authenticated_def Let_def)
next
  assume "t_user_id t = Some a"
  with assms show "t \<notin> set (snd (tasks cx status_filter priority_filter s))"
    by (auto simp: tasks_def login_required_def is_authenticated_def Let_def)
next
  assume "\<exists>owner. get_client s (d_client_id d) = Some owner \<and> c_agent_id owner = Some a"
  with assms show "d \<notin> set (snd (deals cx status_filter s))"
    by (auto simp: deals_def login_required_def is_authenticated_def Let_def deal_of_agent_def)
qed

theorem listings_exclude_foreign_entities_witness:
  "jane \<notin> set (snd (clients (as_user 3) ''lead'' ''buyer'' ''JA_E'' demo_db)) \<and>
   villa \<notin> set (snd (properties (as_user 3) [] [] [] ''vil'' demo_db)) \<and>
   mk_task 1 (Some ''pending'') (Some 50) \<notin> set (snd (tasks (as_user 3) [] [] demo_db)) \<and>
   demo_deal \<notin> set (snd (deals (as_user 3) [] (demo_db\<lparr>tbl_deal := [demo_deal]\<rparr>))) \<and>
   snd (clients (as_user 2) ''lead'' ''buyer'' ''JA_E'' demo_db) = [jane] \<and>
   snd (deals (as_user 2) [] (demo_db\<lparr>tbl_deal := [demo_deal]\<rparr>)) = [demo_deal]"
proof -
  have bob: "current_user (as_user 3) demo_db = Some (mk_user 3 ''bob'' ''staff'')"
    "current_user (as_user 3) (demo_db\<lparr>tbl_deal := [demo_deal]\<rparr>) =
       Some (mk_user 3 ''bob'' ''staff'')"
    by (simp_all add: handler_defs demo_defs)
  have alice: "(2::int) \<noteq> u_id (mk_user 3 ''bob'' ''staff'')"
    by (simp add: mk_user_def)
  have owner: "\<exists>owner. get_client (demo_db\<lparr>tbl_deal := [demo_deal]\<rparr>) (d_client_id demo_deal) =
      Some owner \<and> c_agent_id owner = Some 2"
    by (simp add: handler_defs demo_defs)
  have seen: "snd (clients (as_user 2) ''lead'' ''buyer'' ''JA_E'' demo_db) = [jane]"
    "snd (deals (as_user 2) [] (demo_db\<lparr>tbl_deal := [demo_deal]\<rparr>)) = [demo_deal]"
    by code_simp+
  show ?thesis
    using listings_exclude_foreign_entities [OF bob(1) alice, where c = jane and p = villa
        and t = "mk_task 1 (Some ''pending'') (Some 50)" and status_filter = "''lead''"
        and type_filter = "''buyer''" and search = "''JA_E''"]
      listings_exclude_foreign_entities [OF bob(1) alice, where p = villa
        and t = "mk_task 1 (Some ''pending'') (Some 50)" and status_filter = "[]"
        and type_filter = "[]" and listing_filter = "[]" and priority_filter = "[]"
        and search = "''vil''"]
      listings_exclude_foreign_entities [OF bob(2) alice, where d = demo_deal
        and status_filter = "[]"] owner seen
    by (simp add: jane_def villa_def mk_task_def)
qed

section \<open>The monthly breakdown\<close>

text \<open>A valid date lies in the window of month \<open>m\<close> of year \<open>y\<close> exactly when it has that
  year and month.\<close>

lemma in_month_window:
  assumes "valid_date cd" and "1 \<le> m" and "m \<le> 12"
  shows "date_le \<lparr>year = y, month = m, day = 1\<rparr> cd \<and>
         date_lt cd (if m = 12 then \<lparr>year = y + 1, month = 1, day = 1\<rparr>
                     else \<lparr>year = y, month = m + 1, day = 1\<rparr>)
         \<longleftrightarrow> year cd = y \<and> month cd = m"
  using assms by (cases cd) (auto simp: date_le_def date_lt_def valid_date_def)

lemma sum_list_single_hit:
  fixes c :: "'a::comm_monoid_add"
  assumes "distinct ms"
  shows "sum_list (map (\<lambda>m. if k = m then c else 0) ms) = (if k \<in> set ms then c else 0)"
  using assms by (induction ms) auto

lemma sum_list_by_key:
  fixes f :: "'d \<Rightarrow> 'a::comm_monoid_add"
  assumes "distinct ms" and "\<forall>d\<in>set xs. Q d \<longrightarrow> key d \<in> set ms"
  shows "sum_list (map (\<lambda>m. sum_list (map f (filter (\<lambda>d. Q d \<and> key d = m) xs))) ms) =
         sum_list (map f (filter Q xs))"
  using assms(2)
proof (induction xs)
  case Nil
  then show ?case by simp
next
  case (Cons d xs)
  have split: "sum_list (map f (filter (\<lambda>d. Q d \<and> key d = m) (d # xs))) =
      (if Q d then (if key d = m then f d else 0) else 0) +
      sum_list (map f (filter (\<lambda>d. Q d \<and> key d = m) xs))" for m
    by simp
  have hit: "sum_list (map (\<lambda>m. if Q d then (if key d = m then f d else 0) else 0) ms) =
      (if Q d then f d else 0)"
  proof (cases "Q d")
    case True
    with Cons.prems have "key d \<in> set ms" by simp
    with True show ?thesis by (simp add: sum_list_single_hit [OF assms(1)])
  next
    case False
    then show ?thesis by simp
  qed
  from Cons.prems have "\<forall>d\<in>set xs. Q d \<longrightarrow> key d \<in> set ms" by simp
  then have IH: "sum_list (map (\<lambda>m. sum_list (map f (filter (\<lambda>d. Q d \<and> key d = m) xs))) ms) =
      sum_list (map f (filter Q xs))"
    by (rule Cons.IH)
  show ?case
    unfolding split by (simp add: sum_list_addf hit IH)
qed

lemma month_deals_by_key:
  assumes "\<forall>d\<in>set (tbl_deal s). \<forall>cd. d_closing_date d = Some cd \<longrightarrow> valid_date cd"
    and "m \<in> set [1..<13]"
  shows "month_deals s uid y m =
         filter (\<lambda>d. closed_in_year s uid y d \<and> month (the (d_closing_date d)) = m) (tbl_deal s)"
proof -
  from assms(2) have m: "1 \<le> m" "m \<le> 12" by auto
  have "(deal_of_agent s uid d \<and> d_status d = Some ''closed'' \<and>
          (case d_closing_date d of
             None \<Rightarrow> False
           | Some cd \<Rightarrow>
               date_le \<lparr>year = y, month = m, day = 1\<rparr> cd \<and>
               date_lt cd (if m = 12 then \<lparr>year = y + 1, month = 1, day = 1\<rparr>
                           else \<lparr>year = y, month = m + 1, day = 1\<rparr>))) =
        (closed_in_year s uid y d \<and> month (the (d_closing_date d)) = m)"
    if "d \<in> set (tbl_deal s)" for d
  proof (cases "d_closing_date d")
    case None
    then show ?thesis by (simp add: closed_in_year_def)
  next
    case (Some cd)
    with assms(1) that have "valid_date cd" by blast
    from in_month_window [OF this m, of y] Some show ?thesis
      by (simp add: closed_in_year_def)
  qed
  then show ?thesis
    unfolding month_deals_def Let_def by (intro filter_cong refl) simp
qed

lemma monthly_sum:
  fixes f :: "deal \<Rightarrow> 'a::comm_monoid_add"
  assumes "\<forall>d\<in>set (tbl_deal s). \<forall>cd. d_closing_date d = Some cd \<longrightarrow> valid_date cd"
  shows "sum_list (map (\<lambda>m. sum_list (map f (month_deals s uid y m))) [1..<13]) =
         sum_list (map f (year_deals s uid y))"
proof -
  have key: "\<forall>d\<in>set (tbl_deal s). closed_in_year s uid y d \<longrightarrow>
      month (the (d_closing_date d)) \<in> set [1..<13]"
    using assms by (auto simp: closed_in_year_def valid_date_def split: option.splits)
  have "sum_list (map (\<lambda>m. sum_list (map f (month_deals s uid y m))) [1..<13]) =
      sum_list (map (\<lambda>m. sum_list (map f (filter (\<lambda>d. closed_in_year s uid y d \<and>
        month (the (d_closing_date d)) = m) (tbl_deal s)))) [1..<13])"
    by (intro arg_cong [where f = sum_list] map_cong refl)
      (simp only: month_deals_by_key [OF assms])
  also have "\<dots> = sum_list (map f (filter (closed_in_year s uid y) (tbl_deal s)))"
    by (rule sum_list_by_key [OF _ key]) simp
  also have "filter (closed_in_year s uid y) (tbl_deal s) = year_deals s uid y"
    by (simp add: year_deals_def closed_in_year_def [abs_def])
  finally show ?thesis .
qed

lemma deal_price_nonzero: "deal_price d = nonzero_price d"
  by (auto simp: deal_price_def py_or_def nonzero_price_def split: option.splits)

lemma filter_in_subseqs: "filter P xs \<in> set (subseqs xs)"
  by (induction xs) (auto simp: Let_def)

lemma sums_exactD:
  assumes "sums_exact ev f ds"
  shows "float_sum ev (map f (filter P ds)) = sum_list (map f (filter P ds))"
  using assms filter_in_subseqs [of P ds] by (auto simp: sums_exact_def list_all_iff)

lemma month_deals_of_year:
  assumes "\<forall>d\<in>set (tbl_deal s). \<forall>cd. d_closing_date d = Some cd \<longrightarrow> valid_date cd"
    and "m \<in> set [1..<13]"
  shows "month_deals s uid y m =
         filter (\<lambda>d. month (the (d_closing_date d)) = m) (year_deals s uid y)"
proof -
  have "year_deals s uid y = filter (closed_in_year s uid y) (tbl_deal s)"
    by (simp add: year_deals_def closed_in_year_def [abs_def])
  then show ?thesis
    by (simp only: month_deals_by_key [OF assms] filter_filter)
qed

lemma monthly_float_sums:
  assumes "\<forall>d\<in>set (tbl_deal s). \<forall>cd. d_closing_date d = Some cd \<longrightarrow> valid_date cd"
    and "sums_exact ev f (year_deals s uid y)"
  shows "sum_list (map (\<lambda>m. float_sum ev (map f (month_deals s uid y m))) [1..<13]) =
         sum_list (map f (year_deals s uid y))"
proof -
  have "float_sum ev (map f (month_deals s uid y m)) = sum_list (map f (month_deals s uid y m))"
    if "m \<in> set [1..<13]" for m
    by (simp only: month_deals_of_year [OF assms(1) that] sums_exactD [OF assms(2)])
  then have "sum_list (map (\<lambda>m. float_sum ev (map f (month_deals s uid y m))) [1..<13]) =
      sum_list (map (\<lambda>m. sum_list (map f (month_deals s uid y m))) [1..<13])"
    by (intro arg_cong [where f = sum_list] map_cong refl)
  also have "\<dots> = sum_list (map f (year_deals s uid y))"
    by (rule monthly_sum [OF assms(1)])
  finally show ?thesis .
qed

lemma count_list_as_sum:
  "count_list xs d = sum_list (map (\<lambda>x. if x = d then 1 else 0) xs)"
  by (induction xs) auto

lemma count_list_concat:
  "count_list (concat xss) d = sum_list (map (\<lambda>xs. count_list xs d) xss)"
  by (induction xss) (auto simp: count_list_as_sum)

lemma month_deals_partition:
  assumes "\<forall>d\<in>set (tbl_deal s). \<forall>cd. d_closing_date d = Some cd \<longrightarrow> valid_date cd"
  shows "count_list (concat (map (month_deals s uid y) [1..<13])) d =
         count_list (year_deals s uid y) d"
proof -
  have "count_list (concat (map (month_deals s uid y) [1..<13])) d =
      sum_list (map (\<lambda>xs. count_list xs d) (map (month_deals s uid y) [1..<13]))"
    by (rule count_list_concat)
  also have "\<dots> =
      sum_list (map (\<lambda>m. sum_list (map (\<lambda>x. if x = d then 1 else 0) (month_deals s uid y m)))
        [1..<13])"
    by (simp only: map_map comp_def count_list_as_sum)
  also have "\<dots> = sum_list (map (\<lambda>x. if x = d then 1 else 0) (year_deals s uid y))"
    by (rule monthly_sum [OF assms])
  finally show ?thesis
    by (simp only: count_list_as_sum)
qed

text \<open>
  C5, as stated, fails in its second half for the reason C1 fails: the monthly sales total
  adds \<^verbatim>\<open>final_price or offer_price or 0\<close>, so a closed deal with a final price of 0 and
  an offer of 300000 counts 300000 in May, while the yearly sum of
  \<open>finalPrice ?? offerPrice ?? 0\<close> is 0. (The only sums taken here are that of the single
  amount 300000 and those of empty months; no rounding touches them.)
\<close>

theorem monthly_sales_zero_final_price_counterexample:
  "sum_list (map md_total_sales
      (monthly_data demo_env (demo_db\<lparr>tbl_deal := [zero_final_deal]\<rparr>) 2 2024)) = 300000 \<and>
   spec_year_sales (demo_db\<lparr>tbl_deal := [zero_final_deal]\<rparr>) 2 2024 = 0 \<and>
   reports demo_env (as_user 2) (demo_db\<lparr>tbl_deal := [zero_final_deal]\<rparr>) =
     (OK, monthly_data demo_env (demo_db\<lparr>tbl_deal := [zero_final_deal]\<rparr>) 2 2024)"
  by (simp add: monthly_data_def month_deals_def spec_year_sales_def year_deals_def
      deal_of_agent_def reports_def handler_defs demo_defs zero_final_deal_def upt_rec
      date_le_def date_lt_def deal_price_def py_or_def spec_price_def)

text \<open>
  C5 (amended): for every owner and year Y, the 12 monthly deal lists of the monthly
  breakdown (each month taken over the closed deals of that owner with closing date in the
  half-open calendar-month interval from the first of the month to the first of the next)
  partition that owner's closed deals whose closing date lies in year Y: every such deal
  is counted in exactly one month and the 12 deal counts add up to the yearly count. Each
  month's commission is what \<^verbatim>\<open>sum\<close> returns for the commission amounts of that month's
  deals, and each month's sales total what it returns for their prices (final price if
  present and not zero, otherwise offer price if present and not zero, otherwise 0). Where
  these summations do not round, the 12 commission sums add up to exactly the sum of the
  commission amounts over the year's deals, and the 12 sales totals to the yearly sum of
  those prices; where they round, no exact equality is promised. The report page serves
  this table to an authenticated user for the current year. Closing dates are calendar
  dates, as \<^verbatim>\<open>datetime.date\<close> guarantees.
\<close>

theorem monthly_breakdown_partitions_year:
  assumes "\<forall>d\<in>set (tbl_deal s). \<forall>cd. d_closing_date d = Some cd \<longrightarrow> valid_date cd"
  shows "length (monthly_data ev s uid y) = 12 \<and>
         (\<forall>d. count_list (concat (map (month_deals s uid y) [1..<13])) d =
               count_list (year_deals s uid y) d) \<and>
         map md_deals (monthly_data ev s uid y) =
           map (\<lambda>m. length (month_deals s uid y m)) [1..<13] \<and>
         map md_commission (monthly_data ev s uid y) =
           map (\<lambda>m. float_sum ev (map commission_amount (month_deals s uid y m))) [1..<13] \<and>
         map md_total_sales (monthly_data ev s uid y) =
           map (\<lambda>m. float_sum ev (map nonzero_price (month_deals s uid y m))) [1..<13] \<and>
         sum_list (map md_deals (monthly_data ev s uid y)) = length (year_deals s uid y) \<and>
         (sums_exact ev commission_amount (year_deals s uid y) \<longrightarrow>
            sum_list (map md_commission (monthly_data ev s uid y)) =
              spec_year_commission s uid y) \<and>
         (sums_exact ev nonzero_price (year_deals s uid y) \<longrightarrow>
            sum_list (map md_total_sales (monthly_data ev s uid y)) =
              year_sales_nonzero s uid y) \<and>
         (\<forall>u. current_user cx s = Some u \<and> u_is_active u \<longrightarrow>
            reports ev cx s = (OK, monthly_data ev s (u_id u) (year (today cx))))"
proof -
  have l: "length (monthly_data ev s uid y) = 12"
    by (simp add: monthly_data_def)
  have p: "\<forall>d. count_list (concat (map (month_deals s uid y) [1..<13])) d =
      count_list (year_deals s uid y) d"
    using month_deals_partition [OF assms] by blast
  have rows: "map md_deals (monthly_data ev s uid y) =
        map (\<lambda>m. length (month_deals s uid y m)) [1..<13]"
      "map md_commission (monthly_data ev s uid y) =
        map (\<lambda>m. float_sum ev (map commission_amount (month_deals s uid y m))) [1..<13]"
      "map md_total_sales (monthly_data ev s uid y) =
        map (\<lambda>m. float_sum ev (map nonzero_price (month_deals s uid y m))) [1..<13]"
    by (simp_all add: monthly_data_def Let_def comp_def deal_price_nonzero [abs_def])
  have "sum_list (map (\<lambda>m. length (month_deals s uid y m)) [1..<13]) =
      sum_list (map (\<lambda>m. sum_list (map (\<lambda>d. 1::nat) (month_deals s uid y m))) [1..<13])"
    by (simp add: sum_list_triv)
  also have "\<dots> = sum_list (map (\<lambda>d. 1::nat) (year_deals s uid y))"
    by (rule monthly_sum [OF assms])
  finally have n: "sum_list (map md_deals (monthly_data ev s uid y)) =
      length (year_deals s uid y)"
    by (simp add: rows(1) sum_list_triv)
  have c: "sum_list (map md_commission (monthly_data ev s uid y)) =
      spec_year_commission s uid y"
    if "sums_exact ev commission_amount (year_deals s uid y)"
    by (simp only: rows(2) monthly_float_sums [OF assms that] spec_year_commission_def)
  have t: "sum_list (map md_total_sales (monthly_data ev s uid y)) =
      year_sales_nonzero s uid y"
    if "sums_exact ev nonzero_price (year_deals s uid y)"
    by (simp only: rows(3) monthly_float_sums [OF assms that] year_sales_nonzero_def)
  have r: "\<forall>u. current_user cx s = Some u \<and> u_is_active u \<longrightarrow>
      reports ev cx s = (OK, monthly_data ev s (u_id u) (year (today cx)))"
    by (simp add: reports_def login_required_def is_authenticated_def)
  from l p rows n c t r show ?thesis by blast
qed

theorem monthly_breakdown_partitions_year_witness:
  "sums_exact demo_env commission_amount (year_deals (demo_db\<lparr>tbl_deal := [demo_deal]\<rparr>) 2 2024) \<and>
   sum_list (map md_commission
     (monthly_data demo_env (demo_db\<lparr>tbl_deal := [demo_deal]\<rparr>) 2 2024)) = 9000 \<and>
   spec_year_commission (demo_db\<lparr>tbl_deal := [demo_deal]\<rparr>) 2 2024 = 9000 \<and>
   sum_list (map md_total_sales
     (monthly_data demo_env (demo_db\<lparr>tbl_deal := [demo_deal]\<rparr>) 2 2024)) = 300000 \<and>
   sum_list (map md_deals
     (monthly_data demo_env (demo_db\<lparr>tbl_deal := [demo_deal]\<rparr>) 2 2024)) = 1 \<and>
   count_list (concat (map (month_deals (demo_db\<lparr>tbl_deal := [demo_deal]\<rparr>) 2 2024) [1..<13]))
     demo_deal = 1 \<and>
   reports demo_env (as_user 2) (demo_db\<lparr>tbl_deal := [demo_deal]\<rparr>) =
     (OK, monthly_data demo_env (demo_db\<lparr>tbl_deal := [demo_deal]\<rparr>) 2 2024)"
proof -
  let ?s = "demo_db\<lparr>tbl_deal := [demo_deal]\<rparr>"
  have v: "\<forall>d\<in>set (tbl_deal ?s). \<forall>cd. d_closing_date d = Some cd \<longrightarrow> valid_date cd"
    by (simp add: demo_deal_def valid_date_def)
  have u: "current_user (as_user 2) ?s = Some (mk_user 2 ''alice'' ''staff'')"
    by (simp add: handler_defs demo_defs)
  have y: "year_deals ?s 2 2024 = [demo_deal]"
    by (simp add: year_deals_def deal_of_agent_def handler_defs demo_defs)
  have active: "u_is_active (mk_user 2 ''alice'' ''staff'')"
    by (simp add: mk_user_def)
  have e: "sums_exact demo_env f ds" for f ds
    by (simp add: sums_exact_def demo_env_def list_all_iff)
  have a: "commission_amount demo_deal = 9000" "nonzero_price demo_deal = 300000"
    by (simp_all add: commission_amount_def deal_price_def py_or_def nonzero_price_def
        demo_deal_def)
  note th = monthly_breakdown_partitions_year [OF v, of demo_env 2 2024 "as_user 2"]
  from th e have "sum_list (map md_commission (monthly_data demo_env ?s 2 2024)) =
      spec_year_commission ?s 2 2024"
    by blast
  then have c: "sum_list (map md_commission (monthly_data demo_env ?s 2 2024)) = 9000"
    "spec_year_commission ?s 2 2024 = 9000"
    by (simp_all add: spec_year_commission_def y a)
  from th e have "sum_list (map md_total_sales (monthly_data demo_env ?s 2 2024)) =
      year_sales_nonzero ?s 2 2024"
    by blast
  then have t: "sum_list (map md_total_sales (monthly_data demo_env ?s 2 2024)) = 300000"
    by (simp add: year_sales_nonzero_def y a)
  from th have "sum_list (map md_deals (monthly_data demo_env ?s 2 2024)) =
      length (year_deals ?s 2 2024)"
    by blast
  then have n: "sum_list (map md_deals (monthly_data demo_env ?s 2 2024)) = 1"
    by (simp add: y)
  from th have "count_list (concat (map (month_deals ?s 2 2024) [1..<13])) demo_deal =
      count_list (year_deals ?s 2 2024) demo_deal"
    by blast
  then have k: "count_list (concat (map (month_deals ?s 2 2024) [1..<13])) demo_deal = 1"
    by (simp add: y)
  from th u active have "reports demo_env (as_user 2) ?s =
      (OK, monthly_data demo_env ?s (u_id (mk_user 2 ''alice'' ''staff'')) (year (today (as_user 2))))"
    by blast
  then have r: "reports demo_env (as_user 2) ?s = (OK, monthly_data demo_env ?s 2 2024)"
    by (simp add: mk_user_def as_user_def)
  from e c t n k r show ?thesis
    by (intro conjI)
qed

section \<open>Deleting and deactivating staff accounts\<close>

lemma find_map_replace:
  assumes "find (\<lambda>x. key x = i) xs = Some y" and "key y' = i"
  shows "find (\<lambda>x. key x = i) (map (\<lambda>x. if key x = i then y' else x) xs) = Some y'"
  using assms by (induction xs) (auto split: if_splits)

text \<open>
  C6: for an acting admin (the session of an active admin account), deleting a staff
  account that still owns a client or a property,
  or that is the admin's own account, is refused with a ConflictError and leaves the whole
  database as it was; deactivating such an account (toggling an active account) succeeds,
  sets \<open>is_active\<close> to false, and leaves the Activity rows, the clients and the properties
  untouched.
\<close>

theorem delete_staff_refused_deactivate_succeeds:
  assumes "current_user cx s = Some adm" and "u_is_active adm" and "is_admin adm"
    and "get_user s i = Some member"
    and "list_ex (\<lambda>c. c_agent_id c = Some (u_id member)) (tbl_client s) \<or>
         list_ex (\<lambda>p. p_agent_id p = Some (u_id member)) (tbl_property s) \<or>
         u_id member = u_id adm"
  shows "delete_staff cx i s = (ConflictError, s) \<and>
         fst (toggle_staff_status cx i s) = OK \<and>
         get_user (snd (toggle_staff_status cx i s)) i =
           Some (member\<lparr>u_is_active := \<not> u_is_active member\<rparr>) \<and>
         (u_is_active member \<longrightarrow>
            map_option u_is_active (get_user (snd (toggle_staff_status cx i s)) i) = Some False) \<and>
         tbl_activity (snd (toggle_staff_status cx i s)) = tbl_activity s \<and>
         tbl_client (snd (toggle_staff_status cx i s)) = tbl_client s \<and>
         tbl_property (snd (toggle_staff_status cx i s)) = tbl_property s"
proof -
  have owns: "find P xs = None \<longleftrightarrow> \<not> list_ex P xs" for P :: "'a \<Rightarrow> bool" and xs
    by (auto simp: find_None_iff list_ex_iff)
  have del: "delete_staff cx i s = (ConflictError, s)"
    using assms
    by (auto simp: delete_staff_def login_required_def is_authenticated_def admin_required_def Let_def owns)
  have mi: "u_id member = i"
    using assms(4) unfolding get_user_def by (rule find_id)
  have tog: "toggle_staff_status cx i s =
      (OK, s\<lparr>tbl_user := map (\<lambda>x. if u_id x = i then member\<lparr>u_is_active := \<not> u_is_active member\<rparr>
                                  else x) (tbl_user s)\<rparr>)"
    using assms(1-4)
    by (simp add: toggle_staff_status_def login_required_def is_authenticated_def
        admin_required_def)
  have "get_user (snd (toggle_staff_status cx i s)) i =
      Some (member\<lparr>u_is_active := \<not> u_is_active member\<rparr>)"
    unfolding tog get_user_def using assms(4) mi
    by (simp add: get_user_def find_map_replace)
  with del tog show ?thesis by simp
qed

theorem delete_staff_refused_deactivate_succeeds_witness:
  "delete_staff (as_user 1) 2 demo_db = (ConflictError, demo_db) \<and>
   delete_staff (as_user 1) 1 demo_db = (ConflictError, demo_db) \<and>
   fst (toggle_staff_status (as_user 1) 2 demo_db) = OK \<and>
   map_option u_is_active (get_user (snd (toggle_staff_status (as_user 1) 2 demo_db)) 2) =
     Some False \<and>
   tbl_activity (snd (toggle_staff_status (as_user 1) 2 demo_db)) = tbl_activity demo_db \<and>
   fst (delete_staff (as_user 1) 3 demo_db) = OK"
proof -
  have adm: "current_user (as_user 1) demo_db = Some (mk_user 1 ''admin'' ''admin'')"
    "u_is_active (mk_user 1 ''admin'' ''admin'')"
    "is_admin (mk_user 1 ''admin'' ''admin'')"
    by (simp_all add: handler_defs demo_defs)
  have alice: "get_user demo_db 2 = Some (mk_user 2 ''alice'' ''staff'')"
    and self: "get_user demo_db 1 = Some (mk_user 1 ''admin'' ''admin'')"
    by (simp_all add: handler_defs demo_defs)
  have owns: "list_ex (\<lambda>c. c_agent_id c = Some (u_id (mk_user 2 ''alice'' ''staff'')))
        (tbl_client demo_db) \<or>
      list_ex (\<lambda>p. p_agent_id p = Some (u_id (mk_user 2 ''alice'' ''staff'')))
        (tbl_property demo_db) \<or>
      u_id (mk_user 2 ''alice'' ''staff'') = u_id (mk_user 1 ''admin'' ''admin'')"
    by (simp add: demo_defs)
  have own: "list_ex (\<lambda>c. c_agent_id c = Some (u_id (mk_user 1 ''admin'' ''admin'')))
        (tbl_client demo_db) \<or>
      list_ex (\<lambda>p. p_agent_id p = Some (u_id (mk_user 1 ''admin'' ''admin'')))
        (tbl_property demo_db) \<or>
      u_id (mk_user 1 ''admin'' ''admin'') = u_id (mk_user 1 ''admin'' ''admin'')"
    by simp
  have bob: "fst (delete_staff (as_user 1) 3 demo_db) = OK"
    by (simp add: delete_staff_def handler_defs demo_defs)
  show ?thesis
    using delete_staff_refused_deactivate_succeeds [OF adm alice owns]
      delete_staff_refused_deactivate_succeeds [OF adm self own] bob
    by (simp add: mk_user_def)
qed

section \<open>Cascading deletes\<close>

text \<open>
  C7: a successful delete of a client removes the client and exactly the interactions that
  belong to it; a successful delete of a property removes the property and exactly the
  showings that belong to it. In both cases every other table keeps all of its rows (the
  Activity table gains the row of the delete).
\<close>

theorem delete_cascades_to_children_only:
  "(fst (delete_client cx i s) = OK \<longrightarrow>
      tbl_client (snd (delete_client cx i s)) = filter (\<lambda>c. c_id c \<noteq> i) (tbl_client s) \<and>
      tbl_interaction (snd (delete_client cx i s)) =
        filter (\<lambda>x. i_client_id x \<noteq> i) (tbl_interaction s) \<and>
      tbl_user (snd (delete_client cx i s)) = tbl_user s \<and>
      tbl_property (snd (delete_client cx i s)) = tbl_property s \<and>
      tbl_deal (snd (delete_client cx i s)) = tbl_deal s \<and>
      tbl_task (snd (delete_client cx i s)) = tbl_task s \<and>
      tbl_showing (snd (delete_client cx i s)) = tbl_showing s \<and>
      appended (tbl_activity s) (tbl_activity (snd (delete_client cx i s)))) \<and>
   (fst (delete_property cx i s) = OK \<longrightarrow>
      tbl_property (snd (delete_property cx i s)) = filter (\<lambda>p. p_id p \<noteq> i) (tbl_property s) \<and>
      tbl_showing (snd (delete_property cx i s)) =
        filter (\<lambda>x. sh_property_id x \<noteq> i) (tbl_showing s) \<and>
      tbl_user (snd (delete_property cx i s)) = tbl_user s \<and>
      tbl_client (snd (delete_property cx i s)) = tbl_client s \<and>
      tbl_deal (snd (delete_property cx i s)) = tbl_deal s \<and>
      tbl_task (snd (delete_property cx i s)) = tbl_task s \<and>
      tbl_interaction (snd (delete_property cx i s)) = tbl_interaction s \<and>
      appended (tbl_activity s) (tbl_activity (snd (delete_property cx i s))))"
proof (intro conjI impI)
  assume ok: "fst (delete_client cx i s) = OK"
  then obtain u where u: "current_user cx s = Some u" "u_is_active u"
    unfolding delete_client_def by (blast dest: login_required_OK)
  from ok u obtain c where n: "get_client s i = Some c" "c_agent_id c = Some (u_id u)"
      "\<not> list_ex (\<lambda>d. d_client_id d = i) (tbl_deal s)"
    by (auto simp: delete_client_def login_required_def is_authenticated_def split: option.splits if_splits)
  have r: "snd (delete_client cx i s) =
      log_activity cx ''deleted'' (Some ''client'') (Some i) (Some (client_full_name c))
        (Some (''Deleted client: '' @ client_full_name c))
        (s\<lparr>tbl_client := filter (\<lambda>c. c_id c \<noteq> i) (tbl_client s),
           tbl_interaction := filter (\<lambda>x. i_client_id x \<noteq> i) (tbl_interaction s)\<rparr>)"
    using u n by (simp add: delete_client_def login_required_def is_authenticated_def Let_def)
  show "tbl_client (snd (delete_client cx i s)) = filter (\<lambda>c. c_id c \<noteq> i) (tbl_client s)"
    "tbl_interaction (snd (delete_client cx i s)) =
       filter (\<lambda>x. i_client_id x \<noteq> i) (tbl_interaction s)"
    "tbl_user (snd (delete_client cx i s)) = tbl_user s"
    "tbl_property (snd (delete_client cx i s)) = tbl_property s"
    "tbl_deal (snd (delete_client cx i s)) = tbl_deal s"
    "tbl_task (snd (delete_client cx i s)) = tbl_task s"
    "tbl_showing (snd (delete_client cx i s)) = tbl_showing s"
    unfolding r by (simp_all add: log_activity_frame)
  from delete_client_logged [OF ok]
  show "appended (tbl_activity s) (tbl_activity (snd (delete_client cx i s)))"
    by (simp add: logged_once_def)
next
  assume ok: "fst (delete_property cx i s) = OK"
  then obtain u where u: "current_user cx s = Some u" "u_is_active u"
    unfolding delete_property_def by (blast dest: login_required_OK)
  from ok u obtain p where n: "get_property s i = Some p" "p_agent_id p = Some (u_id u)"
      "\<not> list_ex (\<lambda>d. d_property_id d = i) (tbl_deal s)"
    by (auto simp: delete_property_def login_required_def is_authenticated_def split: option.splits if_splits)
  have r: "snd (delete_property cx i s) =
      log_activity cx ''deleted'' (Some ''property'') (Some i) (Some (p_title p))
        (Some (''Deleted property: '' @ p_title p))
        (s\<lparr>tbl_property := filter (\<lambda>p. p_id p \<noteq> i) (tbl_property s),
           tbl_showing := filter (\<lambda>x. sh_property_id x \<noteq> i) (tbl_showing s)\<rparr>)"
    using u n by (simp add: delete_property_def login_required_def is_authenticated_def Let_def)
  show "tbl_property (snd (delete_property cx i s)) = filter (\<lambda>p. p_id p \<noteq> i) (tbl_property s)"
    "tbl_showing (snd (delete_property cx i s)) =
       filter (\<lambda>x. sh_property_id x \<noteq> i) (tbl_showing s)"
    "tbl_user (snd (delete_property cx i s)) = tbl_user s"
    "tbl_client (snd (delete_property cx i s)) = tbl_client s"
    "tbl_deal (snd (delete_property cx i s)) = tbl_deal s"
    "tbl_task (snd (delete_property cx i s)) = tbl_task s"
    "tbl_interaction (snd (delete_property cx i s)) = tbl_interaction s"
    unfolding r by (simp_all add: log_activity_frame)
  from delete_property_logged [OF ok]
  show "appended (tbl_activity s) (tbl_activity (snd (delete_property cx i s)))"
    by (simp add: logged_once_def)
qed

theorem delete_cascades_to_children_only_witness:
  "fst (delete_client (as_user 2) 1 demo_db) = OK \<and>
   tbl_interaction demo_db \<noteq> [] \<and>
   tbl_client (snd (delete_client (as_user 2) 1 demo_db)) = [] \<and>
   tbl_interaction (snd (delete_client (as_user 2) 1 demo_db)) = [] \<and>
   tbl_showing (snd (delete_client (as_user 2) 1 demo_db)) = tbl_showing demo_db \<and>
   fst (delete_property (as_user 2) 1 demo_db) = OK \<and>
   tbl_showing demo_db \<noteq> [] \<and>
   tbl_property (snd (delete_property (as_user 2) 1 demo_db)) = [] \<and>
   tbl_showing (snd (delete_property (as_user 2) 1 demo_db)) = [] \<and>
   tbl_interaction (snd (delete_property (as_user 2) 1 demo_db)) = tbl_interaction demo_db"
proof -
  have ok: "fst (delete_client (as_user 2) 1 demo_db) = OK"
    "fst (delete_property (as_user 2) 1 demo_db) = OK"
    by (simp_all add: delete_client_def delete_property_def handler_defs demo_defs)
  have rows: "filter (\<lambda>c. c_id c \<noteq> 1) (tbl_client demo_db) = []"
    "filter (\<lambda>x. i_client_id x \<noteq> 1) (tbl_interaction demo_db) = []"
    "filter (\<lambda>p. p_id p \<noteq> 1) (tbl_property demo_db) = []"
    "filter (\<lambda>x. sh_property_id x \<noteq> 1) (tbl_showing demo_db) = []"
    "tbl_interaction demo_db \<noteq> []" "tbl_showing demo_db \<noteq> []"
    by (simp_all add: demo_defs)
  show ?thesis
    using delete_cascades_to_children_only [of "as_user 2" 1 demo_db] ok rows
    by simp
qed

section \<open>Failed logins\<close>

text \<open>
  With a password in the request, an unknown username and a wrong password end in the same
  way: the one generic invalid-credentials failure, the session and the database as they
  were.
\<close>

lemma login_failures_with_password_alike:
  assumes "\<not> is_authenticated (current_user cx s)"
    and "find (\<lambda>u. Some (u_username u) = Some unknown) (tbl_user s) = None"
    and "find (\<lambda>u. Some (u_username u) = Some known) (tbl_user s) = Some user"
    and "\<not> check_password_hash ev (u_password_hash user) wrong"
  shows "login ev cx POST (Some unknown) (Some pw) s = (AuthFailure, cx, s) \<and>
         login ev cx POST (Some known) (Some wrong) s = (AuthFailure, cx, s)"
  using assms by (simp add: login_def)

text \<open>
  C8: a failed login with an unknown username and a failed login with a known username are
  to end in the same generic invalid-credentials failure, so that nothing \<open>login\<close> returns
  tells the two apart. The code aims at that (one message, \<^verbatim>\<open>Invalid username or password\<close>)
  and misses the request that carries no password field: \<^verbatim>\<open>user.check_password(None)\<close> is
  evaluated only when the user exists and raises there, so the known username \<open>alice\<close> is
  answered by a server error and the unknown username \<open>mallory\<close> by the generic failure.
\<close>

theorem login_missing_password_reveals_username:
  "\<not> is_authenticated (current_user (as_user 0) demo_db) \<and>
   login demo_env (as_user 0) POST (Some ''alice'') None demo_db =
     (ServerError, as_user 0, demo_db) \<and>
   login demo_env (as_user 0) POST (Some ''mallory'') None demo_db =
     (AuthFailure, as_user 0, demo_db) \<and>
   login demo_env (as_user 0) POST (Some ''alice'') (Some ''secret'') demo_db =
     (AuthFailure, as_user 0, demo_db) \<and>
   login demo_env (as_user 0) POST (Some ''mallory'') (Some ''secret'') demo_db =
     (AuthFailure, as_user 0, demo_db)"
  by (simp add: login_def handler_defs demo_defs)

section \<open>Upcoming tasks on the dashboard\<close>

text \<open>
  C9, as stated, fails twice on Alice's dashboard: the list holds task 4, whose status is
  \<open>in_progress\<close> and not \<open>pending\<close> (the query excludes completed tasks only), and task 2,
  which has no due date, stands first, before the tasks that have one (SQLite sorts NULL
  first).
\<close>

theorem upcoming_tasks_counterexample:
  "fst (dashboard demo_env (as_user 2) demo_db) = OK \<and>
   map_option upcoming_tasks (snd (dashboard demo_env (as_user 2) demo_db)) =
     Some [mk_task 2 (Some ''pending'') None, mk_task 4 (Some ''in_progress'') (Some 30),
           mk_task 1 (Some ''pending'') (Some 50)] \<and>
   t_status (mk_task 4 (Some ''in_progress'') (Some 30)) \<noteq> Some ''pending'' \<and>
   t_due_date (mk_task 2 (Some ''pending'') None) = None \<and>
   t_due_date (mk_task 4 (Some ''in_progress'') (Some 30)) = Some 30 \<and>
   t_due_date (mk_task 1 (Some ''pending'') (Some 50)) = Some 50"
  by (simp add: dashboard_def dashboard_upcoming_tasks_def handler_defs demo_defs)

text \<open>
  C9 (amended): for every owner (authenticated: an active account), the dashboard is served
  and its upcoming-tasks list contains at most 5 tasks, every task in it is a task of that
  owner whose status is set and is not \<open>completed\<close> (pending or in progress), and the list
  is ordered by due date ascending with the tasks whose due date is absent placed before
  all tasks that have one.
\<close>

theorem upcoming_tasks_open_sorted_nulls_first:
  assumes "current_user cx s = Some u" and "u_is_active u"
  shows "\<exists>d. dashboard ev cx s = (OK, Some d) \<and>
           length (upcoming_tasks d) \<le> 5 \<and>
           (\<forall>t\<in>set (upcoming_tasks d).
              t \<in> set (tbl_task s) \<and> t_user_id t = Some (u_id u) \<and>
              t_status t \<noteq> None \<and> t_status t \<noteq> Some ''completed'') \<and>
           sorted (map t_due_date (upcoming_tasks d)) \<and>
           (\<forall>j<length (upcoming_tasks d). \<forall>k<j.
              t_due_date (upcoming_tasks d ! j) = None \<longrightarrow>
              t_due_date (upcoming_tasks d ! k) = None)"
proof -
  let ?ts = "dashboard_upcoming_tasks s (u_id u)"
  from assms obtain d where d: "dashboard ev cx s = (OK, Some d)" "upcoming_tasks d = ?ts"
    by (simp add: dashboard_def login_required_def is_authenticated_def Let_def)
  have len: "length ?ts \<le> 5"
    by (simp add: dashboard_upcoming_tasks_def)
  have mem: "\<forall>t\<in>set ?ts. t \<in> set (tbl_task s) \<and> t_user_id t = Some (u_id u) \<and>
      t_status t \<noteq> None \<and> t_status t \<noteq> Some ''completed''"
    by (auto simp: dashboard_upcoming_tasks_def dest!: in_set_takeD)
  have srt: "sorted (map t_due_date ?ts)"
    unfolding dashboard_upcoming_tasks_def
    by (simp add: take_map [symmetric] sorted_wrt_take)
  have nulls: "t_due_date (?ts ! k) = None"
    if "j < length ?ts" "k < j" "t_due_date (?ts ! j) = None" for j k
  proof -
    from that have "map t_due_date ?ts ! k \<le> map t_due_date ?ts ! j"
      by (intro sorted_nth_mono [OF srt]) simp_all
    with that show ?thesis
      by (simp add: less_eq_option_None_is_None)
  qed
  from d len mem srt nulls show ?thesis by auto
qed

theorem upcoming_tasks_open_sorted_nulls_first_witness:
  "\<exists>d. dashboard demo_env (as_user 2) demo_db = (OK, Some d) \<and>
     map t_id (upcoming_tasks d) = [2, 4, 1] \<and>
     sorted (map t_due_date (upcoming_tasks d))"
proof -
  have u: "current_user (as_user 2) demo_db = Some (mk_user 2 ''alice'' ''staff'')"
    by (simp add: handler_defs demo_defs)
  have a: "u_is_active (mk_user 2 ''alice'' ''staff'')"
    by (simp add: mk_user_def)
  have v: "map_option upcoming_tasks (snd (dashboard demo_env (as_user 2) demo_db)) =
      Some [mk_task 2 (Some ''pending'') None, mk_task 4 (Some ''in_progress'') (Some 30),
            mk_task 1 (Some ''pending'') (Some 50)]"
    by (simp add: dashboard_def dashboard_upcoming_tasks_def handler_defs demo_defs)
  from upcoming_tasks_open_sorted_nulls_first [OF u a, of demo_env] obtain d
    where d: "dashboard demo_env (as_user 2) demo_db = (OK, Some d)"
      "sorted (map t_due_date (upcoming_tasks d))"
    by blast
  from d(1) v have "map t_id (upcoming_tasks d) = [2, 4, 1]"
    by (simp add: mk_task_def)
  with d show ?thesis by (intro exI [of _ d]) simp
qed

section \<open>Handlers that write no audit record\<close>

text \<open>
  C10: creating a staff account, editing it, toggling its \<open>is_active\<close> flag, resetting its
  password and creating an interaction for a client leave the Activity table exactly as it
  was, whatever the outcome of the operation, a successful one in particular.
\<close>

theorem staff_and_interaction_handlers_do_not_log:
  "tbl_activity (snd (add_staff ev cx m sf s)) = tbl_activity s \<and>
   tbl_activity (snd (edit_staff ev cx m i sf s)) = tbl_activity s \<and>
   tbl_activity (snd (toggle_staff_status cx i s)) = tbl_activity s \<and>
   tbl_activity (snd (reset_staff_password ev cx i new_password s)) = tbl_activity s \<and>
   tbl_activity (snd (add_interaction cx i nf s)) = tbl_activity s"
proof (intro conjI)
  show "tbl_activity (snd (add_staff ev cx m sf s)) = tbl_activity s"
    by (simp add: add_staff_def login_required_def is_authenticated_def admin_required_def
        split: option.splits)
  show "tbl_activity (snd (edit_staff ev cx m i sf s)) = tbl_activity s"
    by (simp add: edit_staff_def login_required_def is_authenticated_def admin_required_def Let_def
        split: option.splits)
  show "tbl_activity (snd (toggle_staff_status cx i s)) = tbl_activity s"
    by (simp add: toggle_staff_status_def login_required_def is_authenticated_def admin_required_def
        split: option.splits)
  show "tbl_activity (snd (reset_staff_password ev cx i new_password s)) = tbl_activity s"
    by (simp add: reset_staff_password_def login_required_def is_authenticated_def admin_required_def
        split: option.splits)
  show "tbl_activity (snd (add_interaction cx i nf s)) = tbl_activity s"
    by (simp add: add_interaction_def login_required_def is_authenticated_def split: option.splits)
qed

theorem staff_and_interaction_handlers_do_not_log_witness:
  "fst (add_staff demo_env (as_user 1) POST carol_form demo_db) = OK \<and>
   tbl_activity (snd (add_staff demo_env (as_user 1) POST carol_form demo_db)) = [] \<and>
   fst (edit_staff demo_env (as_user 1) POST 2 carol_form demo_db) = OK \<and>
   tbl_activity (snd (edit_staff demo_env (as_user 1) POST 2 carol_form demo_db)) = [] \<and>
   fst (toggle_staff_status (as_user 1) 2 demo_db) = OK \<and>
   tbl_activity (snd (toggle_staff_status (as_user 1) 2 demo_db)) = [] \<and>
   fst (reset_staff_password demo_env (as_user 1) 2 (Some ''s3cret!'') demo_db) = OK \<and>
   tbl_activity (snd (reset_staff_password demo_env (as_user 1) 2 (Some ''s3cret!'') demo_db))
     = [] \<and>
   fst (add_interaction (as_user 2) 1 demo_interaction_form demo_db) = OK \<and>
   length (tbl_interaction (snd (add_interaction (as_user 2) 1 demo_interaction_form demo_db)))
     = 2 \<and>
   tbl_activity (snd (add_interaction (as_user 2) 1 demo_interaction_form demo_db)) = []"
proof -
  have ok: "fst (add_staff demo_env (as_user 1) POST carol_form demo_db) = OK"
    by (simp add: add_staff_def handler_defs demo_defs carol_form_def)
  have ok2: "fst (edit_staff demo_env (as_user 1) POST 2 carol_form demo_db) = OK"
    by (simp add: edit_staff_def handler_defs demo_defs carol_form_def)
  have ok3: "fst (toggle_staff_status (as_user 1) 2 demo_db) = OK"
    by (simp add: toggle_staff_status_def handler_defs demo_defs)
  have ok4: "fst (reset_staff_password demo_env (as_user 1) 2 (Some ''s3cret!'') demo_db) = OK"
    by (simp add: reset_staff_password_def handler_defs demo_defs)
  have ok5: "fst (add_interaction (as_user 2) 1 demo_interaction_form demo_db) = OK"
    "length (tbl_interaction (snd (add_interaction (as_user 2) 1 demo_interaction_form demo_db)))
       = 2"
    by (simp_all add: add_interaction_def handler_defs demo_defs)
  have e: "tbl_activity demo_db = []"
    by (simp add: demo_db_def)
  show ?thesis
    using
      staff_and_interaction_handlers_do_not_log [of demo_env "as_user 1" POST carol_form demo_db
        2 "Some ''s3cret!''"]
      staff_and_interaction_handlers_do_not_log [where cx = "as_user 2" and i = 1
        and nf = demo_interaction_form and s = demo_db]
      ok ok2 ok3 ok4 ok5 e
    by simp
qed

end
